theory Spec2Isabelle
  imports Complex_Main
begin

section \<open>The payment request lifecycle of AgenPay\<close>

text \<open>
  A shallow embedding of the payment request lifecycle implemented by
  \<^verbatim>\<open>X402PayService\<close> (createPaymentRequest, handlePaymentSuccess, scheduleRefund,
  cancelPaymentRequest, loadActivePaymentRoutes, the timeout branch of setupRoutes) and by
  \<^verbatim>\<open>SchedulingService\<close> (processScheduledRequests, activatePaymentRequest,
  processScheduledRefunds, executeRefund).

  Conventions of the embedding.
  \<^item> The database tables are lists of rows, in insertion order. The primary key of
    \<^verbatim>\<open>PaymentRequest\<close> is checked by \<^verbatim>\<open>create\<close>; rows of \<^verbatim>\<open>Transaction\<close> and
    \<^verbatim>\<open>OutgoingPayment\<close> get their key from the database and are only appended here.
    The column \<^verbatim>\<open>updatedAt\<close>, maintained by Prisma and never read, is left out.
  \<^item> \<^verbatim>\<open>status\<close>, \<^verbatim>\<open>transactionType\<close> and \<^verbatim>\<open>scheduleType\<close> are \<^verbatim>\<open>TEXT\<close> columns compared
    with \<^verbatim>\<open>===\<close>; they are strings here as well.
  \<^item> A nullable column or an optional JavaScript value is an \<open>option\<close>; \<open>None\<close> stands for
    \<^verbatim>\<open>null\<close> and \<^verbatim>\<open>undefined\<close> alike.
  \<^item> Instants are milliseconds since the epoch. Amounts are IEEE doubles in the source; no
    modelled function computes with them, so they are carried as real numbers (the value
    of \<^verbatim>\<open>parseFloat(amount)\<close>).
  \<^item> Every \<^verbatim>\<open>async\<close> function is run to completion without interleaving. A function that
    can throw returns \<open>Inl\<close> of the error together with the state reached at the throw, so
    that the writes done before the throw stay visible.
  \<^item> What the environment decides (the clock, the generated identifier, the outcome of
    \<^verbatim>\<open>walletService.sendCrypto\<close>) is read from an \<open>Env\<close>; calls that leave the process
    (Notion, sendCrypto) are logged in the state. Database connectivity failures are not
    modelled; constraint violations raised by Prisma are.
\<close>

subsection \<open>Rows and records\<close>

type_synonym instant = int

record NotionDatabase =
  nd_databaseType :: string
  nd_databaseId :: string

record User =
  u_email :: string
  u_walletAddress :: "string option"
  u_notionApiKey :: "string option"
  u_notionDatabases :: "NotionDatabase list"

record PaymentRequest =
  pr_id :: string
  pr_userId :: string
  pr_amount :: real
  pr_currency :: string
  pr_network :: string
  pr_recipientEmail :: "string option"
  pr_recipientName :: "string option"
  pr_description :: "string option"
  pr_aiPrompt :: "string option"
  pr_transactionType :: string
  pr_scheduleType :: string
  pr_scheduledDate :: "instant option"
  pr_status :: string
  pr_x402PayLink :: "string option"
  pr_paymentHash :: "string option"
  pr_paidAt :: "instant option"
  pr_refundDate :: "instant option"
  pr_createdAt :: instant

record Transaction =
  tx_userId :: string
  tx_type :: string
  tx_status :: string
  tx_amount :: real
  tx_currency :: string
  tx_network :: "string option"
  tx_description :: "string option"
  tx_toAddress :: "string option"
  tx_fromAddress :: "string option"
  tx_x402PayId :: "string option"
  tx_relatedRequestId :: "string option"
  tx_txHash :: "string option"
  tx_completedAt :: "instant option"

record OutgoingPayment =
  op_userId :: string
  op_amount :: real
  op_currency :: string
  op_network :: string
  op_recipientAddress :: string
  op_recipientName :: "string option"
  op_fromName :: "string option"
  op_description :: "string option"
  op_scheduleDate :: instant
  op_status :: string
  op_relatedRequestId :: "string option"

text \<open>The value stored in the in-memory map \<^verbatim>\<open>paymentRoutes\<close>.\<close>

record RouteConfig =
  rc_userId :: string
  rc_userWalletAddress :: string
  rc_amount :: real
  rc_currency :: string
  rc_network :: string
  rc_description :: "string option"
  rc_transactionType :: string
  rc_createdAt :: instant

text \<open>Calls that leave the process.\<close>

record NotionCall =
  nc_method :: string
  nc_databaseId :: string
  nc_requestId :: string
  nc_status :: string

record SendCall =
  sc_userId :: string
  sc_toAddress :: "string option"
  sc_amount :: real
  sc_currency :: string
  sc_network :: string

text \<open>
  What \<^verbatim>\<open>executeRefund\<close> reads from the value \<^verbatim>\<open>sendCrypto\<close> resolves to
  (\<^verbatim>\<open>result.success\<close>, \<^verbatim>\<open>result.txHash\<close>, \<^verbatim>\<open>result.error\<close>), or the message of the error
  it rejects with.
\<close>

record SendResult =
  sr_success :: bool
  sr_txHash :: "string option"
  sr_error :: "string option"

datatype SendOutcome = Resolved SendResult | Rejected string

datatype error =
    Error string
  | PrismaKnownRequestError string
  | PrismaValidationError

record Env =
  clock :: "nat \<Rightarrow> instant"
  newPaymentId :: "nat \<Rightarrow> string"
  baseUrl :: "string option"
  sendCrypto :: "SendCall \<Rightarrow> SendOutcome"
  localTZA :: "instant \<Rightarrow> bool \<Rightarrow> int"

text \<open>
  \<open>clock env n\<close> is the value of the \<open>n\<close>-th reading of the clock (\<^verbatim>\<open>new Date()\<close>,
  \<^verbatim>\<open>Date.now()\<close>, the database's \<^verbatim>\<open>CURRENT_TIMESTAMP\<close>) and \<open>reads\<close> counts the readings
  done so far. \<open>newPaymentId env n\<close> is the string
  \<^verbatim>\<open>x402_${Date.now()}_${Math.random().toString(36).substr(2, 9)}\<close> built at reading \<open>n\<close>.
  \<open>localTZA env t isUTC\<close> is the offset of the process's local time from UTC, in
  milliseconds, at the time value \<open>t\<close> read as a UTC instant (\<open>isUTC\<close>) or as a local time:
  the \<^verbatim>\<open>LocalTZA(t, isUTC)\<close> of the language specification. The repository pins no time
  zone, so the offset may change with daylight saving.
\<close>

record State =
  users :: "string \<rightharpoonup> User"
  paymentRequests :: "PaymentRequest list"
  transactions :: "Transaction list"
  outgoingPayments :: "OutgoingPayment list"
  paymentRoutes :: "string \<rightharpoonup> RouteConfig"
  notionCalls :: "NotionCall list"
  sendCalls :: "SendCall list"
  reads :: nat

subsection \<open>JavaScript and Prisma primitives\<close>

text \<open>Truthiness of a string-or-null value: \<^verbatim>\<open>null\<close>, \<^verbatim>\<open>undefined\<close> and \<^verbatim>\<open>''\<close> are falsy.\<close>

definition truthy :: "string option \<Rightarrow> bool" where
  "truthy v = (case v of None \<Rightarrow> False | Some s \<Rightarrow> s \<noteq> [])"

text \<open>\<^verbatim>\<open>a || b\<close> on strings.\<close>

definition orElse :: "string option \<Rightarrow> string \<Rightarrow> string" where
  "orElse v d = (case v of None \<Rightarrow> d | Some s \<Rightarrow> if s = [] then d else s)"

text \<open>\<^verbatim>\<open>user?.walletAddress\<close>\<close>

definition walletAddressOf :: "User option \<Rightarrow> string option" where
  "walletAddressOf u = (case u of None \<Rightarrow> None | Some usr \<Rightarrow> u_walletAddress usr)"

text \<open>A value interpolated into a template literal.\<close>

definition interpolate :: "string option \<Rightarrow> string" where
  "interpolate v = (case v of None \<Rightarrow> ''null'' | Some s \<Rightarrow> s)"

text \<open>\<^verbatim>\<open>new Date()\<close>: the next reading of the clock.\<close>

definition newDate :: "Env \<Rightarrow> State \<Rightarrow> instant \<times> State" where
  "newDate env st = (clock env (reads st), st\<lparr>reads := Suc (reads st)\<rparr>)"

text \<open>\<^verbatim>\<open>prisma.paymentRequest.findUnique({ where: { id } })\<close>\<close>

definition findUniqueRequest :: "State \<Rightarrow> string \<Rightarrow> PaymentRequest option" where
  "findUniqueRequest st pid = find (\<lambda>r. pr_id r = pid) (paymentRequests st)"

text \<open>
  \<^verbatim>\<open>prisma.paymentRequest.update({ where: { id }, data })\<close>: rewrites the row with that key
  and resolves to the new row; rejects with P2025 when there is none.
\<close>

definition updateRequest ::
  "State \<Rightarrow> string \<Rightarrow> (PaymentRequest \<Rightarrow> PaymentRequest) \<Rightarrow> error + (PaymentRequest \<times> State)" where
  "updateRequest st pid f =
     (case findUniqueRequest st pid of
        None \<Rightarrow> Inl (PrismaKnownRequestError ''P2025'')
      | Some r \<Rightarrow>
          Inr (f r, st\<lparr>paymentRequests :=
                 map (\<lambda>x. if pr_id x = pid then f x else x) (paymentRequests st)\<rparr>))"

subsection \<open>X402PayService.createPaymentRequest\<close>

text \<open>
  The destructured argument. \<open>cp_amount\<close> is the value of \<^verbatim>\<open>parseFloat(amount)\<close> and
  \<open>cp_scheduledDate\<close> the instant of \<^verbatim>\<open>new Date(scheduledDate)\<close>.
\<close>

record CreateParams =
  cp_userId :: string
  cp_amount :: real
  cp_currency :: "string option"
  cp_network :: "string option"
  cp_recipientEmail :: "string option"
  cp_recipientName :: "string option"
  cp_description :: "string option"
  cp_transactionType :: "string option"
  cp_scheduleType :: "string option"
  cp_scheduledDate :: "instant option"
  cp_aiPrompt :: "string option"

record CreateResult =
  cr_success :: bool
  cr_paymentId :: string
  cr_paymentUrl :: string
  cr_x402PayLink :: string
  cr_destinationWallet :: string
  cr_request :: PaymentRequest

text \<open>A default of a destructured parameter applies when the property is missing.\<close>

definition withDefault :: "string option \<Rightarrow> string \<Rightarrow> string" where
  "withDefault v d = (case v of None \<Rightarrow> d | Some s \<Rightarrow> s)"

definition createPaymentRequest ::
  "Env \<Rightarrow> State \<Rightarrow> CreateParams \<Rightarrow> (error + CreateResult) \<times> State" where
  "createPaymentRequest env st p =
     (case walletAddressOf (users st (cp_userId p)) of
        None \<Rightarrow>
          (Inl (Error ''User must create a Privy wallet before requesting payments''), st)
      | Some wallet \<Rightarrow>
        if wallet = [] then
          (Inl (Error ''User must create a Privy wallet before requesting payments''), st)
        else
          let currency = withDefault (cp_currency p) ''USDC'';
              network = withDefault (cp_network p) ''sei-testnet'';
              transactionType = withDefault (cp_transactionType p) ''ask_payment'';
              scheduleType = withDefault (cp_scheduleType p) ''immediate'';
              paymentId = newPaymentId env (reads st);
              st1 = st\<lparr>reads := Suc (reads st)\<rparr>;
              paymentUrl =
                orElse (baseUrl env) ''http://localhost:3001'' @ ''/x402pay/'' @ paymentId
          in
          if paymentId \<in> set (map pr_id (paymentRequests st1)) then
            (Inl (PrismaKnownRequestError ''P2002''), st1)
          else
            let (createdAt, st2) = newDate env st1;
                paymentRequest = \<lparr>
                  pr_id = paymentId,
                  pr_userId = cp_userId p,
                  pr_amount = cp_amount p,
                  pr_currency = currency,
                  pr_network = network,
                  pr_recipientEmail = cp_recipientEmail p,
                  pr_recipientName = cp_recipientName p,
                  pr_description = cp_description p,
                  pr_aiPrompt = cp_aiPrompt p,
                  pr_transactionType = transactionType,
                  pr_scheduleType = scheduleType,
                  pr_scheduledDate = cp_scheduledDate p,
                  pr_status =
                    (if scheduleType = ''immediate'' then ''processing'' else ''scheduled''),
                  pr_x402PayLink = Some paymentUrl,
                  pr_paymentHash = None,
                  pr_paidAt = None,
                  pr_refundDate = None,
                  pr_createdAt = createdAt \<rparr>;
                st3 = st2\<lparr>paymentRequests := paymentRequests st2 @ [paymentRequest]\<rparr>;
                (routeCreatedAt, st4) = newDate env st3;
                routeConfig = \<lparr>
                  rc_userId = cp_userId p,
                  rc_userWalletAddress = wallet,
                  rc_amount = cp_amount p,
                  rc_currency = currency,
                  rc_network = network,
                  rc_description = cp_description p,
                  rc_transactionType = transactionType,
                  rc_createdAt = routeCreatedAt \<rparr>;
                st5 = st4\<lparr>paymentRoutes := (paymentRoutes st4)(paymentId \<mapsto> routeConfig)\<rparr>
            in (Inr \<lparr> cr_success = True,
                       cr_paymentId = paymentId,
                       cr_paymentUrl = paymentUrl,
                       cr_x402PayLink = paymentUrl,
                       cr_destinationWallet = wallet,
                       cr_request = paymentRequest \<rparr>, st5))"

subsection \<open>X402PayService: settlement, refund scheduling, cancellation\<close>

text \<open>
  \<^verbatim>\<open>refundDate.setDate(refundDate.getDate() + 30)\<close> works on the fields of local time. By the
  definition of \<^verbatim>\<open>Date.prototype.setDate\<close>, with \<^verbatim>\<open>t = LocalTime(refundDate)\<close> the new value is
  \<^verbatim>\<open>UTC(MakeDate(MakeDay(Year(t), Month(t), DateFromTime(t) + 30), TimeWithinDay(t)))\<close>: the
  local time thirty days of 86400000 milliseconds later, at the same time of day, taken back
  to UTC with the offset in force there. Across a change of daylight saving the result is
  not thirty times 86400000 milliseconds after the start. (Instants stay within the range
  of a \<^verbatim>\<open>Date\<close>.)
\<close>

definition addDays :: "Env \<Rightarrow> instant \<Rightarrow> int \<Rightarrow> instant" where
  "addDays env t d =
     (let localTime = t + localTZA env t True;
          newDate = localTime + d * 86400000
      in newDate - localTZA env newDate False)"

text \<open>The databases of the given type, as the \<^verbatim>\<open>include\<close> clause selects them.\<close>

definition notionDatabasesOfType :: "User \<Rightarrow> string \<Rightarrow> NotionDatabase list" where
  "notionDatabasesOfType u ty = filter (\<lambda>d. nd_databaseType d = ty) (u_notionDatabases u)"

text \<open>
  A call of the Notion client, made when the user has an API key and a database of the
  type. The enclosing \<^verbatim>\<open>try\<close> swallows every failure, so the only trace is the call.
\<close>

definition notionCall :: "State \<Rightarrow> string \<Rightarrow> string \<Rightarrow> string \<Rightarrow> string \<Rightarrow> string \<Rightarrow> State" where
  "notionCall st userId ty method requestId status =
     (case users st userId of
        None \<Rightarrow> st
      | Some u \<Rightarrow>
          (case notionDatabasesOfType u ty of
             [] \<Rightarrow> st
           | d # _ \<Rightarrow>
               if truthy (u_notionApiKey u) then
                 st\<lparr>notionCalls := notionCalls st @
                      [\<lparr> nc_method = method, nc_databaseId = nd_databaseId d,
                         nc_requestId = requestId, nc_status = status \<rparr>]\<rparr>
               else st))"

definition updateNotionRecord :: "State \<Rightarrow> PaymentRequest \<Rightarrow> State" where
  "updateNotionRecord st paymentRequest =
     notionCall st (pr_userId paymentRequest) ''INCOMING_PAYMENTS''
       ''updateOrCreateIncomingPaymentRecord'' (pr_id paymentRequest) ''payment_received''"

text \<open>
  \<^verbatim>\<open>scheduleRefund\<close>. The column \<^verbatim>\<open>OutgoingPayment.recipientAddress\<close> is \<^verbatim>\<open>NOT NULL\<close>: Prisma
  rejects the \<^verbatim>\<open>create\<close> when the request has no recipient email.
\<close>

definition scheduleRefund ::
  "Env \<Rightarrow> State \<Rightarrow> PaymentRequest \<Rightarrow> (error + OutgoingPayment) \<times> State" where
  "scheduleRefund env st paymentRequest =
     (let (now, st1) = newDate env st;
          refundDate = addDays env now 30
      in case pr_recipientEmail paymentRequest of
           None \<Rightarrow> (Inl PrismaValidationError, st1)
         | Some recipientEmail \<Rightarrow>
             let refundPayment = \<lparr>
                   op_userId = pr_userId paymentRequest,
                   op_amount = pr_amount paymentRequest,
                   op_currency = pr_currency paymentRequest,
                   op_network = pr_network paymentRequest,
                   op_recipientAddress = recipientEmail,
                   op_recipientName = pr_recipientName paymentRequest,
                   op_fromName = Some ''AgenPay Refund System'',
                   op_description =
                     Some (''Refund for: '' @ interpolate (pr_description paymentRequest)),
                   op_scheduleDate = refundDate,
                   op_status = ''scheduled'',
                   op_relatedRequestId = Some (pr_id paymentRequest) \<rparr>;
                 st2 = st1\<lparr>outgoingPayments := outgoingPayments st1 @ [refundPayment]\<rparr>
             in (case updateRequest st2 (pr_id paymentRequest)
                        (\<lambda>r. r\<lparr>pr_refundDate := Some refundDate\<rparr>) of
                   Inl e \<Rightarrow> (Inl e, st2)
                 | Inr (_, st3) \<Rightarrow> (Inr refundPayment, st3)))"

text \<open>
  \<^verbatim>\<open>handlePaymentSuccess\<close> resolves to \<^verbatim>\<open>{ ...paymentRequest, toAddress }\<close>: the row as the
  first update returned it, and the wallet address of the user.

  The key of the user lookup is \<^verbatim>\<open>paymentConfig?.userId || dbPaymentRequest?.userId\<close>; with
  a route whose \<^verbatim>\<open>userId\<close> is the empty string it is \<^verbatim>\<open>undefined\<close>, which Prisma rejects.
\<close>

type_synonym PaymentResult = "PaymentRequest \<times> string option"

text \<open>The \<^verbatim>\<open>data\<close> of the update that marks a request as paid.\<close>

definition paymentReceived :: "string option \<Rightarrow> instant \<Rightarrow> PaymentRequest \<Rightarrow> PaymentRequest" where
  "paymentReceived paymentProof paidAt r =
     r\<lparr>pr_status := ''payment_received'',
       pr_paymentHash := Some (orElse paymentProof ''X402_VERIFIED''),
       pr_paidAt := Some paidAt\<rparr>"

text \<open>The \<^verbatim>\<open>data\<close> of the transaction record that \<^verbatim>\<open>handlePaymentSuccess\<close> creates.\<close>

definition incomingTransaction ::
  "PaymentRequest \<Rightarrow> string option \<Rightarrow> string \<Rightarrow> string option \<Rightarrow> instant \<Rightarrow> Transaction" where
  "incomingTransaction paymentRequest toAddress paymentId paymentProof completedAt = \<lparr>
     tx_userId = pr_userId paymentRequest,
     tx_type = ''INCOMING'',
     tx_status = ''COMPLETED'',
     tx_amount = pr_amount paymentRequest,
     tx_currency = pr_currency paymentRequest,
     tx_network = Some (pr_network paymentRequest),
     tx_description = pr_description paymentRequest,
     tx_toAddress = toAddress,
     tx_fromAddress = Some ''X402Pay_Verified_Sender'',
     tx_x402PayId = Some paymentId,
     tx_relatedRequestId = Some paymentId,
     tx_txHash = Some (orElse paymentProof (''x402_'' @ paymentId)),
     tx_completedAt = Some completedAt \<rparr>"

definition handlePaymentSuccess ::
  "Env \<Rightarrow> State \<Rightarrow> string \<Rightarrow> string option \<Rightarrow> (error + PaymentResult) \<times> State" where
  "handlePaymentSuccess env st paymentId paymentProof =
     (let paymentConfig = paymentRoutes st paymentId;
          dbPaymentRequest =
            (case paymentConfig of None \<Rightarrow> findUniqueRequest st paymentId | Some _ \<Rightarrow> None);
          userKey =
            (case paymentConfig of
               Some c \<Rightarrow> if rc_userId c = [] then None else Some (rc_userId c)
             | None \<Rightarrow> map_option pr_userId dbPaymentRequest)
      in
      if paymentConfig = None \<and> dbPaymentRequest = None then
        (Inl (Error (''Payment configuration not found for '' @ paymentId)), st)
      else
        (case userKey of
          None \<Rightarrow> (Inl PrismaValidationError, st)
        | Some userId \<Rightarrow>
            let user = users st userId;
                (paidAt, st1) = newDate env st
            in (case updateRequest st1 paymentId (paymentReceived paymentProof paidAt) of
                 Inl e \<Rightarrow> (Inl e, st1)
               | Inr (paymentRequest, st2) \<Rightarrow>
                   let (completedAt, st3) = newDate env st2;
                       st4 = st3\<lparr>transactions := transactions st3 @
                               [incomingTransaction paymentRequest (walletAddressOf user)
                                  paymentId paymentProof completedAt]\<rparr>;
                       refund =
                         (if pr_transactionType paymentRequest = ''ask_and_refund''
                          then (case scheduleRefund env st4 paymentRequest of
                                  (Inl e, st5) \<Rightarrow> (Some e, st5)
                                | (Inr _, st5) \<Rightarrow> (None, st5))
                          else (None, st4))
                   in (case refund of
                         (Some e, st5) \<Rightarrow> (Inl e, st5)
                       | (None, st5) \<Rightarrow>
                           let st6 = updateNotionRecord st5 paymentRequest;
                               st7 = st6\<lparr>paymentRoutes := (paymentRoutes st6)(paymentId := None)\<rparr>
                           in (Inr (paymentRequest, walletAddressOf user), st7)))))"

definition cancelPaymentRequest ::
  "State \<Rightarrow> string \<Rightarrow> (error + PaymentRequest) \<times> State" where
  "cancelPaymentRequest st paymentId =
     (case updateRequest st paymentId (\<lambda>r. r\<lparr>pr_status := ''cancelled''\<rparr>) of
        Inl e \<Rightarrow> (Inl e, st)
      | Inr (paymentRequest, st1) \<Rightarrow>
          (Inr paymentRequest, st1\<lparr>paymentRoutes := (paymentRoutes st1)(paymentId := None)\<rparr>))"

subsection \<open>X402PayService: the route registry\<close>

text \<open>
  \<^verbatim>\<open>loadActivePaymentRoutes\<close> joins each request with its user (\<^verbatim>\<open>include: { user }\<close>) and
  sets a route only under \<^verbatim>\<open>if (payment.user?.walletAddress)\<close>.
\<close>

definition loadActivePaymentRoutes :: "State \<Rightarrow> State" where
  "loadActivePaymentRoutes st =
     (let activePayments =
            filter (\<lambda>p. pr_status p = ''processing'' \<or> pr_status p = ''scheduled'')
              (paymentRequests st)
      in st\<lparr>paymentRoutes :=
           foldl (\<lambda>routes payment.
                    case walletAddressOf (users st (pr_userId payment)) of
                      None \<Rightarrow> routes
                    | Some wallet \<Rightarrow>
                        if wallet = [] then routes
                        else routes(pr_id payment \<mapsto> \<lparr>
                               rc_userId = pr_userId payment,
                               rc_userWalletAddress = wallet,
                               rc_amount = pr_amount payment,
                               rc_currency = pr_currency payment,
                               rc_network = pr_network payment,
                               rc_description = pr_description payment,
                               rc_transactionType = pr_transactionType payment,
                               rc_createdAt = pr_createdAt payment \<rparr>))
             (paymentRoutes st) activePayments\<rparr>)"

text \<open>
  The constructor, as far as the registry goes: \<^verbatim>\<open>this.paymentRoutes = new Map()\<close> followed
  by \<^verbatim>\<open>this.loadActivePaymentRoutes()\<close>. Whatever the previous process held in memory is
  gone; the database is what remains.
\<close>

definition constructor :: "State \<Rightarrow> State" where
  "constructor st = loadActivePaymentRoutes (st\<lparr>paymentRoutes := Map.empty\<rparr>)"

subsection \<open>X402PayService.setupRoutes: the gate and the timer\<close>

record JsonBody =
  jb_error :: string
  jb_details :: "error option"
  jb_paymentId :: "string option"

text \<open>The arguments of \<^verbatim>\<open>generateSuccessPage\<close>; the HTML around them is not modelled.\<close>

record SuccessPage =
  sp_paymentId :: string
  sp_amount :: real
  sp_currency :: string
  sp_description :: "string option"
  sp_walletAddress :: "string option"

datatype Body = Json JsonBody | Html SuccessPage

record Response =
  rs_status :: nat
  rs_body :: Body

text \<open>
  What the handler's closure holds for one inbound call: the header
  \<^verbatim>\<open>req.headers['x-payment']\<close>, the flag \<^verbatim>\<open>middlewareCompleted\<close> and the response sent so far
  (\<^verbatim>\<open>res.headersSent\<close> says that there is one).
\<close>

record Exchange =
  ex_xPayment :: "string option"
  ex_middlewareCompleted :: bool
  ex_sent :: "Response option"

definition headersSent :: "Exchange \<Rightarrow> bool" where
  "headersSent ex = (ex_sent ex \<noteq> None)"

definition respond :: "Exchange \<Rightarrow> nat \<Rightarrow> Body \<Rightarrow> Exchange" where
  "respond ex code body = ex\<lparr>ex_sent := Some \<lparr> rs_status = code, rs_body = body \<rparr>\<rparr>"

text \<open>The first check of the handler: \<^verbatim>\<open>this.paymentRoutes.has(paymentId)\<close>, else 404.\<close>

definition routeLookup :: "State \<Rightarrow> string \<Rightarrow> Response + RouteConfig" where
  "routeLookup st paymentId =
     (case paymentRoutes st paymentId of
        None \<Rightarrow> Inl \<lparr> rs_status = 404,
                     rs_body = Json \<lparr> jb_error = ''Payment link not found or expired'',
                                       jb_details = None,
                                       jb_paymentId = Some paymentId \<rparr> \<rparr>
      | Some paymentConfig \<Rightarrow> Inr paymentConfig)"

text \<open>The delay passed to \<^verbatim>\<open>setTimeout\<close>, in milliseconds.\<close>

definition timeoutMs :: nat where
  "timeoutMs = 5000"

text \<open>
  The callback passed to \<^verbatim>\<open>setTimeout\<close>, run when the timer fires. The promise of
  \<^verbatim>\<open>handlePaymentSuccess\<close> is followed to its \<^verbatim>\<open>then\<close> or \<^verbatim>\<open>catch\<close>.
\<close>

definition timeoutCallback ::
  "Env \<Rightarrow> State \<Rightarrow> string \<Rightarrow> Exchange \<Rightarrow> State \<times> Exchange" where
  "timeoutCallback env st paymentId ex =
     (if \<not> ex_middlewareCompleted ex \<and> \<not> headersSent ex then
        let ex1 = ex\<lparr>ex_middlewareCompleted := True\<rparr> in
        if truthy (ex_xPayment ex) then
          (case handlePaymentSuccess env st paymentId (ex_xPayment ex) of
             (Inr (paymentResult, toAddress), st1) \<Rightarrow>
               (st1, respond ex1 200 (Html \<lparr>
                       sp_paymentId = paymentId,
                       sp_amount = pr_amount paymentResult,
                       sp_currency = pr_currency paymentResult,
                       sp_description = pr_description paymentResult,
                       sp_walletAddress = toAddress \<rparr>))
           | (Inl err, st1) \<Rightarrow>
               (st1, respond ex1 400 (Json \<lparr>
                       jb_error = ''Payment verification failed'',
                       jb_details = Some err,
                       jb_paymentId = Some paymentId \<rparr>)))
        else
          (st, respond ex1 500 (Json \<lparr>
                 jb_error = ''X402 payment processing timeout'',
                 jb_details = None,
                 jb_paymentId = Some paymentId \<rparr>))
      else (st, ex))"

subsection \<open>SchedulingService\<close>

text \<open>A date filter \<^verbatim>\<open>{ lte: now }\<close>; a \<^verbatim>\<open>NULL\<close> column never matches.\<close>

definition lte :: "instant option \<Rightarrow> instant \<Rightarrow> bool" where
  "lte d now = (case d of None \<Rightarrow> False | Some t \<Rightarrow> t \<le> now)"

definition updateNotionIncomingPayment :: "State \<Rightarrow> string \<Rightarrow> PaymentRequest \<Rightarrow> State" where
  "updateNotionIncomingPayment st userId request =
     notionCall st userId ''INCOMING_PAYMENTS'' ''addIncomingPaymentRecord''
       (pr_id request) (pr_status request)"

text \<open>
  \<^verbatim>\<open>activatePaymentRequest\<close> catches what it throws. The Notion call gets the row as the
  query returned it, before the update.
\<close>

definition activatePaymentRequest :: "State \<Rightarrow> PaymentRequest \<Rightarrow> State" where
  "activatePaymentRequest st request =
     (case updateRequest st (pr_id request) (\<lambda>r. r\<lparr>pr_status := ''processing''\<rparr>) of
        Inl e \<Rightarrow> st
      | Inr (_, st1) \<Rightarrow> updateNotionIncomingPayment st1 (pr_userId request) request)"

definition processScheduledRequests :: "Env \<Rightarrow> State \<Rightarrow> State" where
  "processScheduledRequests env st =
     (let (now, st1) = newDate env st;
          dueRequests =
            filter (\<lambda>r. pr_scheduleType r = ''scheduled'' \<and> pr_status r = ''scheduled''
                          \<and> lte (pr_scheduledDate r) now)
              (paymentRequests st1)
      in foldl activatePaymentRequest st1 dueRequests)"

text \<open>
  \<^verbatim>\<open>executeRefund\<close> sends through \<^verbatim>\<open>walletService.sendCrypto\<close> and catches what is thrown.
  The request comes with its user joined (\<^verbatim>\<open>include: { user: true }\<close>); the foreign key of
  the table makes that user exist.
\<close>

definition executeRefund :: "Env \<Rightarrow> State \<Rightarrow> PaymentRequest \<Rightarrow> State" where
  "executeRefund env st paymentRequest =
     (let recipientAddress = pr_recipientEmail paymentRequest;
          call = \<lparr> sc_userId = pr_userId paymentRequest,
                   sc_toAddress = recipientAddress,
                   sc_amount = pr_amount paymentRequest,
                   sc_currency = pr_currency paymentRequest,
                   sc_network = pr_network paymentRequest \<rparr>;
          st1 = st\<lparr>sendCalls := sendCalls st @ [call]\<rparr>
      in case sendCrypto env call of
           Rejected _ \<Rightarrow> st1
         | Resolved result \<Rightarrow>
             if sr_success result then
               (case updateRequest st1 (pr_id paymentRequest)
                       (\<lambda>r. r\<lparr>pr_status := ''refunded''\<rparr>) of
                  Inl e \<Rightarrow> st1
                | Inr (_, st2) \<Rightarrow>
                    let (completedAt, st3) = newDate env st2;
                        st4 = st3\<lparr>transactions := transactions st3 @ [\<lparr>
                                tx_userId = pr_userId paymentRequest,
                                tx_type = ''REFUND'',
                                tx_status = ''COMPLETED'',
                                tx_amount = pr_amount paymentRequest,
                                tx_currency = pr_currency paymentRequest,
                                tx_network = Some (pr_network paymentRequest),
                                tx_description =
                                  Some (''Refund for: '' @
                                        interpolate (pr_description paymentRequest)),
                                tx_toAddress = recipientAddress,
                                tx_fromAddress =
                                  walletAddressOf (users st (pr_userId paymentRequest)),
                                tx_x402PayId = None,
                                tx_relatedRequestId = Some (pr_id paymentRequest),
                                tx_txHash = sr_txHash result,
                                tx_completedAt = Some completedAt \<rparr>]\<rparr>
                    in updateNotionIncomingPayment st4 (pr_userId paymentRequest)
                         (paymentRequest\<lparr>pr_status := ''refunded''\<rparr>))
             else st1)"

definition processScheduledRefunds :: "Env \<Rightarrow> State \<Rightarrow> State" where
  "processScheduledRefunds env st =
     (let (now, st1) = newDate env st;
          refundDueRequests =
            filter (\<lambda>r. pr_transactionType r = ''ask_and_refund''
                          \<and> pr_status r = ''payment_received''
                          \<and> lte (pr_refundDate r) now)
              (paymentRequests st1)
      in foldl (executeRefund env) st1 refundDueRequests)"

subsection \<open>Sequences of calls\<close>

text \<open>
  The entry points of the two services, and a run of calls on one state. Results are
  dropped; a call that throws leaves the state it reached.
\<close>

datatype Call =
    CreatePaymentRequest CreateParams
  | HandlePaymentSuccess string "string option"
  | CancelPaymentRequest string
  | ProcessScheduledRequests
  | ProcessScheduledRefunds
  | Restart

definition step :: "Env \<Rightarrow> State \<Rightarrow> Call \<Rightarrow> State" where
  "step env st c =
     (case c of
        CreatePaymentRequest p \<Rightarrow> snd (createPaymentRequest env st p)
      | HandlePaymentSuccess paymentId paymentProof \<Rightarrow>
          snd (handlePaymentSuccess env st paymentId paymentProof)
      | CancelPaymentRequest paymentId \<Rightarrow> snd (cancelPaymentRequest st paymentId)
      | ProcessScheduledRequests \<Rightarrow> processScheduledRequests env st
      | ProcessScheduledRefunds \<Rightarrow> processScheduledRefunds env st
      | Restart \<Rightarrow> constructor st)"

definition run :: "Env \<Rightarrow> State \<Rightarrow> Call list \<Rightarrow> State" where
  "run env st cs = foldl (step env) st cs"

text \<open>
  A refund date is only found on a request of kind \<^verbatim>\<open>ask_and_refund\<close> that has been paid
  (\<^verbatim>\<open>paidAt\<close> is written together with the status \<^verbatim>\<open>payment_received\<close>, and never erased).
\<close>

definition refundDateOnlyWhenPaid :: "State \<Rightarrow> bool" where
  "refundDateOnlyWhenPaid st =
     list_all (\<lambda>r. pr_refundDate r \<noteq> None \<longrightarrow>
                      pr_transactionType r = ''ask_and_refund'' \<and> pr_paidAt r \<noteq> None)
       (paymentRequests st)"

text \<open>The primary key of the table.\<close>

definition uniqueIds :: "State \<Rightarrow> bool" where
  "uniqueIds st = distinct (map pr_id (paymentRequests st))"




text \<open>
  The condition under which \<^verbatim>\<open>updateNotionRecord\<close> calls Notion for a user:
  \<^verbatim>\<open>user?.notionApiKey && user.notionDatabases.length > 0\<close>.
\<close>

definition mirrorsIncoming :: "State \<Rightarrow> string \<Rightarrow> bool" where
  "mirrorsIncoming st userId =
     (case users st userId of
        None \<Rightarrow> False
      | Some u \<Rightarrow> truthy (u_notionApiKey u)
                 \<and> notionDatabasesOfType u ''INCOMING_PAYMENTS'' \<noteq> [])"

text \<open>The row a call of \<^verbatim>\<open>createPaymentRequest\<close> resolved to, if it did.\<close>

definition createdRequest :: "(error + CreateResult) \<times> State \<Rightarrow> PaymentRequest option" where
  "createdRequest out = (case fst out of Inl _ \<Rightarrow> None | Inr res \<Rightarrow> Some (cr_request res))"

text \<open>The status stored for an identifier.\<close>

definition statusOf :: "State \<Rightarrow> string \<Rightarrow> string option" where
  "statusOf st paymentId = map_option pr_status (findUniqueRequest st paymentId)"

subsection \<open>A concrete scenario\<close>

text \<open>
  Alice has a wallet and a Notion database for incoming payments, Bob has no wallet. The
  clock advances by a millisecond at each reading, local time is UTC; \<^verbatim>\<open>sendCrypto\<close>
  resolves the way
  \<^verbatim>\<open>WalletService.sendCrypto\<close> does when it does not throw (\<^verbatim>\<open>success: true\<close>, no field
  \<^verbatim>\<open>txHash\<close>).
\<close>

definition demoId :: string where
  "demoId = ''x402_1700000000000_k3j9x2m1q''"

definition demoEnv :: Env where
  "demoEnv = \<lparr> clock = (\<lambda>n. 1700000000000 + int n),
               newPaymentId = (\<lambda>n. demoId),
               baseUrl = None,
               sendCrypto = (\<lambda>c. Resolved \<lparr> sr_success = True, sr_txHash = None,
                                             sr_error = None \<rparr>),
               localTZA = (\<lambda>t isUTC. 0) \<rparr>"

text \<open>The same environment some three years later.\<close>

definition laterEnv :: Env where
  "laterEnv = demoEnv\<lparr> clock := (\<lambda>n. 1800000000000 + int n) \<rparr>"

text \<open>
  The first environment in a zone where daylight saving ends within the thirty days: the
  offset is two hours before the change and one hour after it.
\<close>

definition dstEnv :: Env where
  "dstEnv = demoEnv\<lparr> localTZA := (\<lambda>t isUTC. if t < 1701000000000 then 7200000 else 3600000) \<rparr>"

text \<open>An environment of that later time in which every send is rejected.\<close>

definition failingEnv :: Env where
  "failingEnv = laterEnv\<lparr> sendCrypto := (\<lambda>c. Rejected ''Privy not initialized'') \<rparr>"

definition alice :: User where
  "alice = \<lparr> u_email = ''alice@example.com'', u_walletAddress = Some ''0xA11CE'',
             u_notionApiKey = Some ''secret_1'',
             u_notionDatabases = [\<lparr> nd_databaseType = ''INCOMING_PAYMENTS'',
                                    nd_databaseId = ''db1'' \<rparr>] \<rparr>"

definition bob :: User where
  "bob = \<lparr> u_email = ''bob@example.com'', u_walletAddress = None,
           u_notionApiKey = None, u_notionDatabases = [] \<rparr>"

definition emptyState :: State where
  "emptyState = \<lparr> users = [''alice'' \<mapsto> alice, ''bob'' \<mapsto> bob],
                  paymentRequests = [], transactions = [], outgoingPayments = [],
                  paymentRoutes = Map.empty, notionCalls = [], sendCalls = [], reads = 0 \<rparr>"

definition askPayment :: CreateParams where
  "askPayment = \<lparr> cp_userId = ''alice'', cp_amount = 100, cp_currency = Some ''USDC'',
      cp_network = None, cp_recipientEmail = Some ''payer@example.com'',
      cp_recipientName = None, cp_description = Some ''Invoice 7'',
      cp_transactionType = Some ''ask_payment'', cp_scheduleType = Some ''immediate'',
      cp_scheduledDate = None, cp_aiPrompt = None \<rparr>"

definition askPaymentBob :: CreateParams where
  "askPaymentBob = askPayment\<lparr> cp_userId := ''bob'' \<rparr>"

text \<open>Activation one hour after the first reading of the clock, and long before it.\<close>

definition scheduledFuture :: CreateParams where
  "scheduledFuture = askPayment\<lparr> cp_scheduleType := Some ''scheduled'',
                                  cp_scheduledDate := Some 1700003600000 \<rparr>"

definition scheduledPast :: CreateParams where
  "scheduledPast = askPayment\<lparr> cp_scheduleType := Some ''scheduled'',
                                cp_scheduledDate := Some 1600000000000 \<rparr>"

definition refundable :: CreateParams where
  "refundable = askPayment\<lparr> cp_transactionType := Some ''ask_and_refund'' \<rparr>"

definition refundableNoEmail :: CreateParams where
  "refundableNoEmail = refundable\<lparr> cp_recipientEmail := None \<rparr>"

definition created :: "CreateParams \<Rightarrow> State" where
  "created p = snd (createPaymentRequest demoEnv emptyState p)"

definition paid :: "CreateParams \<Rightarrow> State" where
  "paid p = snd (handlePaymentSuccess demoEnv (created p) demoId (Some ''proof-1''))"

definition paidTwice :: "CreateParams \<Rightarrow> State" where
  "paidTwice p = snd (handlePaymentSuccess demoEnv (paid p) demoId (Some ''proof-1''))"

text \<open>An inbound call with a proof, and one without, before the middleware answered.\<close>

definition pendingWithProof :: Exchange where
  "pendingWithProof = \<lparr> ex_xPayment = Some ''proof-1'', ex_middlewareCompleted = False,
                        ex_sent = None \<rparr>"

definition pendingWithoutProof :: Exchange where
  "pendingWithoutProof = \<lparr> ex_xPayment = None, ex_middlewareCompleted = False,
                           ex_sent = None \<rparr>"

text \<open>
  Whether the send that \<^verbatim>\<open>executeRefund\<close> makes for a request resolves with
  \<^verbatim>\<open>result.success\<close>.
\<close>

definition refundSent :: "Env \<Rightarrow> PaymentRequest \<Rightarrow> bool" where
  "refundSent env paymentRequest =
     (case sendCrypto env \<lparr> sc_userId = pr_userId paymentRequest,
                              sc_toAddress = pr_recipientEmail paymentRequest,
                              sc_amount = pr_amount paymentRequest,
                              sc_currency = pr_currency paymentRequest,
                              sc_network = pr_network paymentRequest \<rparr> of
        Resolved result \<Rightarrow> sr_success result
      | Rejected _ \<Rightarrow> False)"

text \<open>The row of the refundable request once it is paid.\<close>

definition paidRefundable :: PaymentRequest where
  "paidRefundable = \<lparr>
      pr_id = demoId, pr_userId = ''alice'', pr_amount = 100, pr_currency = ''USDC'',
      pr_network = ''sei-testnet'', pr_recipientEmail = Some ''payer@example.com'',
      pr_recipientName = None, pr_description = Some ''Invoice 7'', pr_aiPrompt = None,
      pr_transactionType = ''ask_and_refund'', pr_scheduleType = ''immediate'',
      pr_scheduledDate = None, pr_status = ''payment_received'',
      pr_x402PayLink = Some (''http://localhost:3001/x402pay/'' @ demoId),
      pr_paymentHash = Some ''proof-1'', pr_paidAt = Some 1700000000003,
      pr_refundDate = Some 1702592000005, pr_createdAt = 1700000000001 \<rparr>"

section \<open>Properties\<close>

subsection \<open>Lists, lookups and updates\<close>

lemma find_app:
  "find P (xs @ ys) = (case find P xs of None \<Rightarrow> find P ys | Some x \<Rightarrow> Some x)"
  by (induction xs) auto

lemma findUniqueRequest_Some:
  "findUniqueRequest st pid = Some r \<Longrightarrow> r \<in> set (paymentRequests st) \<and> pr_id r = pid"
  unfolding findUniqueRequest_def by (auto simp: find_Some_iff)

lemma findUniqueRequest_None:
  "findUniqueRequest st pid = None \<longleftrightarrow> pid \<notin> pr_id ` set (paymentRequests st)"
  unfolding findUniqueRequest_def by (auto simp: find_None_iff)

lemma find_map_update:
  assumes "\<And>x. pr_id (f x) = pr_id x"
  shows "find (\<lambda>r. pr_id r = pid) (map (\<lambda>x. if pr_id x = q then f x else x) rows)
         = map_option (\<lambda>x. if pr_id x = q then f x else x) (find (\<lambda>r. pr_id r = pid) rows)"
  using assms by (induction rows) auto

lemma map_update_absent:
  "pid \<notin> pr_id ` set rows \<Longrightarrow> map (\<lambda>x. if pr_id x = pid then f x else x) rows = rows"
  by (induction rows) auto

lemma resolved:
  "\<not> isl (fst out) \<Longrightarrow> \<exists>res st'. out = (Inr res, st')"
  by (cases out; cases "fst out") auto

lemma notionCall_fields [simp]:
  "paymentRequests (notionCall st u ty m rid s) = paymentRequests st"
  "paymentRoutes (notionCall st u ty m rid s) = paymentRoutes st"
  "transactions (notionCall st u ty m rid s) = transactions st"
  "outgoingPayments (notionCall st u ty m rid s) = outgoingPayments st"
  "sendCalls (notionCall st u ty m rid s) = sendCalls st"
  "users (notionCall st u ty m rid s) = users st"
  "reads (notionCall st u ty m rid s) = reads st"
  by (auto simp: notionCall_def split: option.splits list.splits)

subsection \<open>Evaluating the scenario\<close>

lemmas model_defs = createPaymentRequest_def handlePaymentSuccess_def scheduleRefund_def
  paymentReceived_def incomingTransaction_def
  cancelPaymentRequest_def updateRequest_def findUniqueRequest_def newDate_def
  updateNotionRecord_def notionCall_def notionDatabasesOfType_def walletAddressOf_def
  withDefault_def orElse_def truthy_def interpolate_def addDays_def lte_def
  loadActivePaymentRoutes_def constructor_def routeLookup_def timeoutCallback_def
  headersSent_def respond_def activatePaymentRequest_def processScheduledRequests_def
  updateNotionIncomingPayment_def executeRefund_def processScheduledRefunds_def
  createdRequest_def statusOf_def refundSent_def

lemmas demo_defs = demoEnv_def laterEnv_def failingEnv_def demoId_def emptyState_def alice_def bob_def
  askPayment_def askPaymentBob_def scheduledFuture_def scheduledPast_def refundable_def
  refundableNoEmail_def created_def paid_def paidTwice_def dstEnv_def
  pendingWithProof_def pendingWithoutProof_def paidRefundable_def

lemma demo_create_resolves:
  "\<not> isl (fst (createPaymentRequest demoEnv emptyState askPayment))"
  "\<not> isl (fst (createPaymentRequest demoEnv emptyState scheduledPast))"
  "\<not> isl (fst (createPaymentRequest demoEnv emptyState scheduledFuture))"
  "\<not> isl (fst (createPaymentRequest demoEnv emptyState refundable))"
  "\<not> isl (fst (createPaymentRequest demoEnv emptyState refundableNoEmail))"
  by (simp_all add: model_defs demo_defs Let_def)

subsection \<open>Creation\<close>

lemma createPaymentRequest_Inr:
  assumes "createPaymentRequest env st p = (Inr res, st')"
  shows "cr_paymentId res = newPaymentId env (reads st)"
    and "pr_id (cr_request res) = cr_paymentId res"
    and "cr_paymentId res \<notin> pr_id ` set (paymentRequests st)"
    and "paymentRequests st' = paymentRequests st @ [cr_request res]"
    and "paymentRoutes st' (cr_paymentId res) \<noteq> None"
    and "pr_status (cr_request res) =
           (if withDefault (cp_scheduleType p) ''immediate'' = ''immediate''
            then ''processing'' else ''scheduled'')"
    and "pr_refundDate (cr_request res) = None"
  using assms
  by (auto simp: createPaymentRequest_def newDate_def Let_def
      split: option.splits if_splits prod.splits)

lemma createPaymentRequest_stored:
  assumes "createPaymentRequest env st p = (Inr res, st')"
  shows "findUniqueRequest st' (cr_paymentId res) = Some (cr_request res)"
proof -
  have "find (\<lambda>r. pr_id r = cr_paymentId res) (paymentRequests st) = None"
    using createPaymentRequest_Inr(3)[OF assms] by (force simp: find_None_iff)
  then show ?thesis
    unfolding findUniqueRequest_def
    using createPaymentRequest_Inr(2,4)[OF assms] by (simp add: find_app)
qed

text \<open>
  Claim C9. A user without a wallet address cannot create a payment request: the call fails
  with the error \<^verbatim>\<open>User must create a Privy wallet before requesting payments\<close> and leaves
  the state as it was, so that no row and no route is created; a call that succeeds was made
  for a user with a wallet address. (A missing user and an empty address count as no
  wallet, as \<^verbatim>\<open>!user?.walletAddress\<close> does.)
\<close>

theorem createPaymentRequest_requires_wallet:
  "(\<not> truthy (walletAddressOf (users st (cp_userId p))) \<longrightarrow>
      createPaymentRequest env st p =
        (Inl (Error ''User must create a Privy wallet before requesting payments''), st))
   \<and> (\<forall>res st'. createPaymentRequest env st p = (Inr res, st') \<longrightarrow>
         truthy (walletAddressOf (users st (cp_userId p))))"
  by (auto simp: createPaymentRequest_def truthy_def Let_def
      split: option.splits if_splits prod.splits)

text \<open>
  Claim C9 at work: Bob, who has no wallet, is refused and nothing changes; Alice, who has
  one, gets her request.
\<close>

theorem createPaymentRequest_requires_wallet_witness:
  "createPaymentRequest demoEnv emptyState askPaymentBob =
     (Inl (Error ''User must create a Privy wallet before requesting payments''), emptyState)
   \<and> \<not> isl (fst (createPaymentRequest demoEnv emptyState askPayment))
   \<and> truthy (walletAddressOf (users emptyState (cp_userId askPayment)))"
proof -
  have no_wallet: "\<not> truthy (walletAddressOf (users emptyState (cp_userId askPaymentBob)))"
    by (simp add: model_defs demo_defs)
  obtain res st' where ok: "createPaymentRequest demoEnv emptyState askPayment = (Inr res, st')"
    using resolved[OF demo_create_resolves(1)] by blast
  from createPaymentRequest_requires_wallet[of emptyState askPaymentBob demoEnv] no_wallet
  have "createPaymentRequest demoEnv emptyState askPaymentBob =
     (Inl (Error ''User must create a Privy wallet before requesting payments''), emptyState)"
    by blast
  moreover from createPaymentRequest_requires_wallet[of emptyState askPayment demoEnv] ok
  have "truthy (walletAddressOf (users emptyState (cp_userId askPayment)))" by blast
  ultimately show ?thesis using ok by simp
qed

text \<open>
  Claim C6 does not hold as stated: a request created with schedule type \<^verbatim>\<open>scheduled\<close> and an
  activation time that has already passed is stored as \<^verbatim>\<open>scheduled\<close>, not as
  \<^verbatim>\<open>processing\<close>.
\<close>

theorem create_past_schedule_counterexample:
  "cp_scheduleType scheduledPast = Some ''scheduled''
   \<and> lte (cp_scheduledDate scheduledPast) (clock demoEnv 0)
   \<and> map_option pr_status
        (createdRequest (createPaymentRequest demoEnv emptyState scheduledPast))
       = Some ''scheduled''"
  by (simp add: model_defs demo_defs Let_def)

text \<open>
  Claim C6, amended. The status of a new request follows the schedule type alone: it is
  \<^verbatim>\<open>processing\<close> when the schedule type is \<^verbatim>\<open>immediate\<close> (the default) and \<^verbatim>\<open>scheduled\<close>
  for every other schedule type, whatever the activation time; the row is stored with that
  status.
\<close>

theorem create_status_by_scheduleType:
  assumes "createPaymentRequest env st p = (Inr res, st')"
  shows "pr_status (cr_request res) =
           (if withDefault (cp_scheduleType p) ''immediate'' = ''immediate''
            then ''processing'' else ''scheduled'')
         \<and> statusOf st' (cr_paymentId res) = Some (pr_status (cr_request res))"
  using createPaymentRequest_Inr(6)[OF assms] createPaymentRequest_stored[OF assms]
  by (simp add: statusOf_def)

text \<open>
  Claim C6, amended, at work: the request with the past activation time is stored as
  \<^verbatim>\<open>scheduled\<close>, the immediate one as \<^verbatim>\<open>processing\<close>.
\<close>

theorem create_status_by_scheduleType_witness:
  "\<not> isl (fst (createPaymentRequest demoEnv emptyState scheduledPast))
   \<and> statusOf (created scheduledPast) demoId = Some ''scheduled''
   \<and> statusOf (created askPayment) demoId = Some ''processing''"
proof -
  obtain res st' where
    ok: "createPaymentRequest demoEnv emptyState scheduledPast = (Inr res, st')"
    using resolved[OF demo_create_resolves(2)] by blast
  obtain res2 st2 where
    ok2: "createPaymentRequest demoEnv emptyState askPayment = (Inr res2, st2)"
    using resolved[OF demo_create_resolves(1)] by blast
  have id: "cr_paymentId res = demoId" "cr_paymentId res2 = demoId"
    using createPaymentRequest_Inr(1)[OF ok] createPaymentRequest_Inr(1)[OF ok2]
    by (simp_all add: demoEnv_def)
  have "statusOf (created scheduledPast) demoId = Some ''scheduled''"
    using create_status_by_scheduleType[OF ok] ok id
    by (simp add: created_def withDefault_def scheduledPast_def askPayment_def)
  moreover have "statusOf (created askPayment) demoId = Some ''processing''"
    using create_status_by_scheduleType[OF ok2] ok2 id
    by (simp add: created_def withDefault_def askPayment_def)
  ultimately show ?thesis using ok by simp
qed

subsection \<open>Activation\<close>

lemma activatePaymentRequest_fields:
  "paymentRequests (activatePaymentRequest st q) =
     map (\<lambda>x. if pr_id x = pr_id q then x\<lparr>pr_status := ''processing''\<rparr> else x)
       (paymentRequests st)"
  "paymentRoutes (activatePaymentRequest st q) = paymentRoutes st"
  by (auto simp: activatePaymentRequest_def updateNotionIncomingPayment_def updateRequest_def
        findUniqueRequest_None map_update_absent split: option.splits)

lemma foldl_activate_routes:
  "paymentRoutes (foldl activatePaymentRequest st due) = paymentRoutes st"
  by (induction due arbitrary: st) (simp_all add: activatePaymentRequest_fields)

lemma foldl_activate_requests:
  "paymentRequests (foldl activatePaymentRequest st due) =
     map (\<lambda>x. if pr_id x \<in> pr_id ` set due then x\<lparr>pr_status := ''processing''\<rparr> else x)
       (paymentRequests st)"
proof (induction due arbitrary: st)
  case Nil
  then show ?case by simp
next
  case (Cons q due)
  show ?case
    by (simp add: Cons.IH activatePaymentRequest_fields comp_def)
qed

lemma processScheduledRequests_routes:
  "paymentRoutes (processScheduledRequests env st) = paymentRoutes st"
  by (simp add: processScheduledRequests_def newDate_def foldl_activate_routes)

lemma find_map_pred:
  assumes "\<And>x. pr_id (g x) = pr_id x"
  shows "find (\<lambda>r. pr_id r = pid) (map g rows) = map_option g (find (\<lambda>r. pr_id r = pid) rows)"
  using assms by (induction rows) auto

lemma processScheduledRequests_due:
  assumes "findUniqueRequest st pid = Some r"
    and "pr_scheduleType r = ''scheduled''" and "pr_status r = ''scheduled''"
    and "lte (pr_scheduledDate r) (clock env (reads st))"
  shows "statusOf (processScheduledRequests env st) pid = Some ''processing''"
proof -
  let ?due = "filter (\<lambda>r. pr_scheduleType r = ''scheduled'' \<and> pr_status r = ''scheduled''
                          \<and> lte (pr_scheduledDate r) (clock env (reads st)))
              (paymentRequests st)"
  let ?g = "\<lambda>x. if pr_id x \<in> pr_id ` set ?due then x\<lparr>pr_status := ''processing''\<rparr> else x"
  have rows: "paymentRequests (processScheduledRequests env st) = map ?g (paymentRequests st)"
    by (simp add: processScheduledRequests_def newDate_def foldl_activate_requests)
  have "r \<in> set ?due" using assms findUniqueRequest_Some[OF assms(1)] by simp
  moreover have "pr_id r = pid" using findUniqueRequest_Some[OF assms(1)] by simp
  ultimately have due: "pid \<in> pr_id ` set ?due" by blast
  have "findUniqueRequest (processScheduledRequests env st) pid = map_option ?g (Some r)"
    unfolding findUniqueRequest_def rows
    using find_map_pred[of ?g pid "paymentRequests st"] assms(1)
    by (simp add: findUniqueRequest_def)
  then show ?thesis using due \<open>pr_id r = pid\<close> by (simp add: statusOf_def)
qed

text \<open>
  Claim C2 does not hold as stated: a request created as \<^verbatim>\<open>scheduled\<close> with an activation
  time one hour ahead has its route registered at creation, and a lookup of its identifier
  finds the route while the status is still \<^verbatim>\<open>scheduled\<close>.
\<close>

theorem scheduled_route_registered_counterexample:
  "cp_scheduleType scheduledFuture = Some ''scheduled''
   \<and> \<not> lte (cp_scheduledDate scheduledFuture) (clock demoEnv (reads (created scheduledFuture)))
   \<and> statusOf (created scheduledFuture) demoId = Some ''scheduled''
   \<and> \<not> isl (routeLookup (created scheduledFuture) demoId)"
  by (simp add: model_defs demo_defs Let_def)

text \<open>
  Claim C2, amended. \<^verbatim>\<open>createPaymentRequest\<close> registers the route of every request it
  creates, whatever the schedule type, so a lookup of the new identifier succeeds from
  creation on. The activation cycle of the scheduler leaves the registry as it is; what it
  does to a request that is \<^verbatim>\<open>scheduled\<close> and due is to store the status \<^verbatim>\<open>processing\<close>,
  and the lookup still succeeds afterwards.
\<close>

theorem route_registered_at_creation:
  assumes "createPaymentRequest env st p = (Inr res, st1)"
  shows "\<not> isl (routeLookup st1 (cr_paymentId res))
   \<and> paymentRoutes (processScheduledRequests env st1) = paymentRoutes st1
   \<and> \<not> isl (routeLookup (processScheduledRequests env st1) (cr_paymentId res))
   \<and> (pr_scheduleType (cr_request res) = ''scheduled''
        \<and> lte (pr_scheduledDate (cr_request res)) (clock env (reads st1))
      \<longrightarrow> statusOf st1 (cr_paymentId res) = Some ''scheduled''
          \<and> statusOf (processScheduledRequests env st1) (cr_paymentId res) = Some ''processing'')"
proof -
  have route: "\<not> isl (routeLookup st1 (cr_paymentId res))"
    using createPaymentRequest_Inr(5)[OF assms] by (auto simp: routeLookup_def)
  have same: "paymentRoutes (processScheduledRequests env st1) = paymentRoutes st1"
    by (rule processScheduledRequests_routes)
  have after: "\<not> isl (routeLookup (processScheduledRequests env st1) (cr_paymentId res))"
    using route by (simp add: routeLookup_def same)
  have stored: "findUniqueRequest st1 (cr_paymentId res) = Some (cr_request res)"
    by (rule createPaymentRequest_stored[OF assms])
  have sched: "pr_scheduleType (cr_request res) = ''scheduled'' \<Longrightarrow>
               pr_status (cr_request res) = ''scheduled''"
    using assms
    by (auto simp: createPaymentRequest_def newDate_def Let_def
        split: option.splits if_splits prod.splits)
  show ?thesis
    using route same after stored sched processScheduledRequests_due[OF stored]
    by (auto simp: statusOf_def)
qed

text \<open>
  Claim C2, amended, at work: the request whose activation time has passed has a route from
  the start, and the activation cycle turns its status from \<^verbatim>\<open>scheduled\<close> to
  \<^verbatim>\<open>processing\<close>.
\<close>

theorem route_registered_at_creation_witness:
  "\<not> isl (fst (createPaymentRequest demoEnv emptyState scheduledPast))
   \<and> cp_scheduleType scheduledPast = Some ''scheduled''
   \<and> \<not> isl (routeLookup (created scheduledPast) demoId)
   \<and> statusOf (created scheduledPast) demoId = Some ''scheduled''
   \<and> statusOf (processScheduledRequests demoEnv (created scheduledPast)) demoId = Some ''processing''
   \<and> \<not> isl (routeLookup (processScheduledRequests demoEnv (created scheduledPast)) demoId)"
proof -
  obtain res st1 where
    ok: "createPaymentRequest demoEnv emptyState scheduledPast = (Inr res, st1)"
    using resolved[OF demo_create_resolves(2)] by blast
  have id: "cr_paymentId res = demoId"
    using createPaymentRequest_Inr(1)[OF ok] by (simp add: demoEnv_def)
  have st1: "st1 = created scheduledPast" using ok by (simp add: created_def)
  have req: "cp_scheduleType scheduledPast = Some ''scheduled''"
    by (simp add: scheduledPast_def askPayment_def)
  have due: "pr_scheduleType (cr_request res) = ''scheduled''
             \<and> lte (pr_scheduledDate (cr_request res)) (clock demoEnv (reads st1))"
    using ok by (auto simp: model_defs demo_defs Let_def)
  show ?thesis
    using route_registered_at_creation[OF ok] due ok
    by (simp add: id st1[symmetric] req)
qed

subsection \<open>Settlement\<close>

lemma scheduleRefund_Inr:
  assumes "scheduleRefund env st r = (Inr op, st')"
  shows "pr_recipientEmail r = Some (op_recipientAddress op)"
    and "outgoingPayments st' = outgoingPayments st @ [op]"
    and "op_scheduleDate op = addDays env (clock env (reads st)) 30"
    and "op_status op = ''scheduled''"
    and "paymentRequests st' =
           map (\<lambda>x. if pr_id x = pr_id r
                     then x\<lparr>pr_refundDate := Some (addDays env (clock env (reads st)) 30)\<rparr> else x)
             (paymentRequests st)"
    and "transactions st' = transactions st"
    and "paymentRoutes st' = paymentRoutes st"
    and "reads st' = Suc (reads st)"
    and "users st' = users st"
    and "sendCalls st' = sendCalls st"
    and "notionCalls st' = notionCalls st"
  using assms
  by (auto simp: scheduleRefund_def newDate_def Let_def updateRequest_def
      split: option.splits if_splits prod.splits sum.splits)

lemma scheduleRefund_resolves:
  assumes "pr_recipientEmail r = Some e" and "findUniqueRequest st (pr_id r) = Some row"
  shows "\<exists>op st'. scheduleRefund env st r = (Inr op, st')"
  using assms
  by (auto simp: scheduleRefund_def newDate_def Let_def updateRequest_def findUniqueRequest_def
      split: option.splits if_splits prod.splits sum.splits)

lemma scheduleRefund_Inl:
  assumes "scheduleRefund env st r = (Inl e, st')"
  shows "paymentRequests st' = paymentRequests st"
  using assms
  by (auto simp: scheduleRefund_def newDate_def Let_def updateRequest_def
      split: option.splits if_splits prod.splits sum.splits)

lemma findUniqueRequest_other_fields [simp]:
  "findUniqueRequest (st\<lparr>reads := n\<rparr>) pid = findUniqueRequest st pid"
  "findUniqueRequest (st\<lparr>transactions := ts\<rparr>) pid = findUniqueRequest st pid"
  "findUniqueRequest (st\<lparr>paymentRoutes := rs\<rparr>) pid = findUniqueRequest st pid"
  "findUniqueRequest (st\<lparr>outgoingPayments := ops\<rparr>) pid = findUniqueRequest st pid"
  "findUniqueRequest (st\<lparr>sendCalls := cs\<rparr>) pid = findUniqueRequest st pid"
  by (simp_all add: findUniqueRequest_def)

lemma paymentReceived_fields [simp]:
  "pr_id (paymentReceived proof t r) = pr_id r"
  "pr_userId (paymentReceived proof t r) = pr_userId r"
  "pr_transactionType (paymentReceived proof t r) = pr_transactionType r"
  "pr_recipientEmail (paymentReceived proof t r) = pr_recipientEmail r"
  "pr_refundDate (paymentReceived proof t r) = pr_refundDate r"
  "pr_status (paymentReceived proof t r) = ''payment_received''"
  "pr_paidAt (paymentReceived proof t r) = Some t"
  by (simp_all add: paymentReceived_def)

lemma updateNotionRecord_fields [simp]:
  "paymentRequests (updateNotionRecord st r) = paymentRequests st"
  "paymentRoutes (updateNotionRecord st r) = paymentRoutes st"
  "transactions (updateNotionRecord st r) = transactions st"
  "outgoingPayments (updateNotionRecord st r) = outgoingPayments st"
  "sendCalls (updateNotionRecord st r) = sendCalls st"
  "users (updateNotionRecord st r) = users st"
  "reads (updateNotionRecord st r) = reads st"
  by (simp_all add: updateNotionRecord_def)

lemma handlePaymentSuccess_no_row:
  assumes "findUniqueRequest st pid = None"
  shows "isl (fst (handlePaymentSuccess env st pid proof))"
    and "paymentRequests (snd (handlePaymentSuccess env st pid proof)) = paymentRequests st"
  using assms
  by (cases "paymentRoutes st pid";
      simp add: handlePaymentSuccess_def Let_def newDate_def updateRequest_def)+

lemma handlePaymentSuccess_bad_key:
  assumes "paymentRoutes st pid = Some c" and "rc_userId c = []"
  shows "handlePaymentSuccess env st pid proof = (Inl PrismaValidationError, st)"
  using assms by (simp add: handlePaymentSuccess_def Let_def)

lemma handlePaymentSuccess_eq:
  assumes "findUniqueRequest st pid = Some row"
    and "\<And>c. paymentRoutes st pid = Some c \<Longrightarrow> rc_userId c \<noteq> []"
  shows "handlePaymentSuccess env st pid proof =
     (let r' = paymentReceived proof (clock env (reads st)) row;
          to = walletAddressOf (users st (case paymentRoutes st pid of
                                             Some c \<Rightarrow> rc_userId c | None \<Rightarrow> pr_userId row));
          st4 = st\<lparr>paymentRequests :=
                     map (\<lambda>x. if pr_id x = pid
                               then paymentReceived proof (clock env (reads st)) x else x)
                       (paymentRequests st),
                   reads := Suc (Suc (reads st)),
                   transactions := transactions st @
                     [incomingTransaction r' to pid proof (clock env (Suc (reads st)))]\<rparr>
      in if pr_transactionType row = ''ask_and_refund'' then
           (case scheduleRefund env st4 r' of
              (Inl e, st5) \<Rightarrow> (Inl e, st5)
            | (Inr op, st5) \<Rightarrow>
                (Inr (r', to),
                 (updateNotionRecord st5 r')\<lparr>paymentRoutes :=
                    (paymentRoutes (updateNotionRecord st5 r'))(pid := None)\<rparr>))
         else (Inr (r', to),
               (updateNotionRecord st4 r')\<lparr>paymentRoutes :=
                  (paymentRoutes (updateNotionRecord st4 r'))(pid := None)\<rparr>))"
    (is "_ = ?rhs")
proof -
  let ?r = "paymentReceived proof (clock env (reads st)) row"
  let ?to = "walletAddressOf (users st (case paymentRoutes st pid of
                                             Some c \<Rightarrow> rc_userId c | None \<Rightarrow> pr_userId row))"
  let ?st4 = "st\<lparr>paymentRequests :=
                     map (\<lambda>x. if pr_id x = pid
                               then paymentReceived proof (clock env (reads st)) x else x)
                       (paymentRequests st),
                   reads := Suc (Suc (reads st)),
                   transactions := transactions st @
                     [incomingTransaction ?r ?to pid proof (clock env (Suc (reads st)))]\<rparr>"
  obtain out st5 where sr: "scheduleRefund env ?st4 ?r = (out, st5)"
    by (cases "scheduleRefund env ?st4 ?r") auto
  show ?thesis
  proof (cases "paymentRoutes st pid")
    case None
    then show ?thesis
      using assms(1) sr
      by (cases out)
        (simp_all add: handlePaymentSuccess_def Let_def newDate_def updateRequest_def)
  next
    case (Some c)
    then show ?thesis
      using assms(1) assms(2)[OF Some] sr
      by (cases out)
        (simp_all add: handlePaymentSuccess_def Let_def newDate_def updateRequest_def)
  qed
qed

lemma handlePaymentSuccess_resolves:
  assumes row: "findUniqueRequest st pid = Some row"
    and key: "\<And>c. paymentRoutes st pid = Some c \<Longrightarrow> rc_userId c \<noteq> []"
    and email: "pr_transactionType row = ''ask_and_refund'' \<Longrightarrow> pr_recipientEmail row \<noteq> None"
  shows "\<exists>to st'. handlePaymentSuccess env st pid proof =
            (Inr (paymentReceived proof (clock env (reads st)) row, to), st')
          \<and> length (transactions st') = Suc (length (transactions st))
          \<and> paymentRoutes st' pid = None
          \<and> findUniqueRequest st' pid =
              Some (if pr_transactionType row = ''ask_and_refund''
                    then (paymentReceived proof (clock env (reads st)) row)
                           \<lparr>pr_refundDate := Some (addDays env (clock env (Suc (Suc (reads st)))) 30)\<rparr>
                    else paymentReceived proof (clock env (reads st)) row)"
proof -
  let ?r = "paymentReceived proof (clock env (reads st)) row"
  let ?to = "walletAddressOf (users st (case paymentRoutes st pid of
                                             Some c \<Rightarrow> rc_userId c | None \<Rightarrow> pr_userId row))"
  let ?st4 = "st\<lparr>paymentRequests :=
                     map (\<lambda>x. if pr_id x = pid
                               then paymentReceived proof (clock env (reads st)) x else x)
                       (paymentRequests st),
                   reads := Suc (Suc (reads st)),
                   transactions := transactions st @
                     [incomingTransaction ?r ?to pid proof (clock env (Suc (reads st)))]\<rparr>"
  have pid: "pr_id row = pid" using findUniqueRequest_Some[OF row] by simp
  have row4: "findUniqueRequest ?st4 pid = Some ?r"
    using find_map_update[where f="paymentReceived proof (clock env (reads st))"
        and pid=pid and q=pid and rows="paymentRequests st"] row pid
    by (simp add: findUniqueRequest_def)
  show ?thesis
  proof (cases "pr_transactionType row = ''ask_and_refund''")
    case False
    then show ?thesis
      using handlePaymentSuccess_eq[OF row key, of env "proof"] row4
      by (simp add: Let_def findUniqueRequest_def)
  next
    case True
    then obtain e where e: "pr_recipientEmail ?r = Some e" using email by auto
    have "findUniqueRequest ?st4 (pr_id ?r) = Some ?r" using row4 pid by simp
    from scheduleRefund_resolves[OF e this, of env]
    obtain op st5 where sr: "scheduleRefund env ?st4 ?r = (Inr op, st5)" by blast
    have rows5: "paymentRequests st5 =
           map (\<lambda>x. if pr_id x = pid
                     then x\<lparr>pr_refundDate := Some (addDays env (clock env (Suc (Suc (reads st)))) 30)\<rparr>
                     else x)
             (paymentRequests ?st4)"
      using scheduleRefund_Inr(5)[OF sr] pid by simp
    have "findUniqueRequest st5 pid =
            Some (?r\<lparr>pr_refundDate := Some (addDays env (clock env (Suc (Suc (reads st)))) 30)\<rparr>)"
      using find_map_update[where
          f="\<lambda>x. x\<lparr>pr_refundDate := Some (addDays env (clock env (Suc (Suc (reads st)))) 30)\<rparr>"
          and pid=pid and q=pid and rows="paymentRequests ?st4"] row4 pid
      by (simp add: findUniqueRequest_def rows5)
    then show ?thesis
      using handlePaymentSuccess_eq[OF row key, of env "proof"] True sr
        scheduleRefund_Inr(6,7)[OF sr]
      by (simp add: Let_def findUniqueRequest_def)
  qed
qed

lemma handlePaymentSuccess_Inr:
  assumes "handlePaymentSuccess env st pid proof = (Inr res, st')"
  shows "\<exists>row. findUniqueRequest st pid = Some row
           \<and> (\<forall>c. paymentRoutes st pid = Some c \<longrightarrow> rc_userId c \<noteq> [])
           \<and> (pr_transactionType row = ''ask_and_refund'' \<longrightarrow> pr_recipientEmail row \<noteq> None)"
proof -
  obtain row where row: "findUniqueRequest st pid = Some row"
    using handlePaymentSuccess_no_row(1)[of st pid env "proof"] assms
    by (cases "findUniqueRequest st pid") auto
  have key: "rc_userId c \<noteq> []" if "paymentRoutes st pid = Some c" for c
    using handlePaymentSuccess_bad_key[OF that, of env "proof"] assms by auto
  have "pr_recipientEmail row \<noteq> None" if aar: "pr_transactionType row = ''ask_and_refund''"
  proof
    assume none: "pr_recipientEmail row = None"
    have "isl (fst (handlePaymentSuccess env st pid proof))"
      using handlePaymentSuccess_eq[OF row key, of env "proof"] aar none
      by (simp add: Let_def scheduleRefund_def newDate_def)
    then show False using assms by simp
  qed
  then show ?thesis using row key by blast
qed

lemma mirrorsIncoming_users:
  "users a = users b \<Longrightarrow> mirrorsIncoming a u = mirrorsIncoming b u"
  by (simp add: mirrorsIncoming_def)

lemma updateNotionRecord_calls:
  "length (notionCalls (updateNotionRecord st r)) =
     length (notionCalls st) + (if mirrorsIncoming st (pr_userId r) then 1 else 0)"
  by (auto simp: updateNotionRecord_def notionCall_def mirrorsIncoming_def
      split: option.splits list.splits)

lemma handlePaymentSuccess_mirror:
  assumes row: "findUniqueRequest st pid = Some row"
    and key: "\<And>c. paymentRoutes st pid = Some c \<Longrightarrow> rc_userId c \<noteq> []"
    and email: "pr_transactionType row = ''ask_and_refund'' \<Longrightarrow> pr_recipientEmail row \<noteq> None"
  shows "users (snd (handlePaymentSuccess env st pid proof)) = users st
     \<and> length (notionCalls (snd (handlePaymentSuccess env st pid proof))) =
         length (notionCalls st) + (if mirrorsIncoming st (pr_userId row) then 1 else 0)"
proof -
  let ?r = "paymentReceived proof (clock env (reads st)) row"
  let ?to = "walletAddressOf (users st (case paymentRoutes st pid of
                                             Some c \<Rightarrow> rc_userId c | None \<Rightarrow> pr_userId row))"
  let ?st4 = "st\<lparr>paymentRequests :=
                     map (\<lambda>x. if pr_id x = pid
                               then paymentReceived proof (clock env (reads st)) x else x)
                       (paymentRequests st),
                   reads := Suc (Suc (reads st)),
                   transactions := transactions st @
                     [incomingTransaction ?r ?to pid proof (clock env (Suc (reads st)))]\<rparr>"
  have pid: "pr_id row = pid" using findUniqueRequest_Some[OF row] by simp
  have row4: "findUniqueRequest ?st4 pid = Some ?r"
    using find_map_update[where f="paymentReceived proof (clock env (reads st))"
        and pid=pid and q=pid and rows="paymentRequests st"] row pid
    by (simp add: findUniqueRequest_def)
  have m4: "mirrorsIncoming s (pr_userId row) = mirrorsIncoming st (pr_userId row)"
    if "users s = users st" for s
    using mirrorsIncoming_users[OF that] by simp
  show ?thesis
  proof (cases "pr_transactionType row = ''ask_and_refund''")
    case False
    then show ?thesis
      using handlePaymentSuccess_eq[OF row key, of env "proof"] m4[of ?st4]
      by (simp add: Let_def updateNotionRecord_calls)
  next
    case True
    then obtain e where e: "pr_recipientEmail ?r = Some e" using email by auto
    have "findUniqueRequest ?st4 (pr_id ?r) = Some ?r" using row4 pid by simp
    from scheduleRefund_resolves[OF e this, of env]
    obtain op st5 where sr: "scheduleRefund env ?st4 ?r = (Inr op, st5)" by blast
    have "users st5 = users st" "notionCalls st5 = notionCalls st"
      using scheduleRefund_Inr(9,11)[OF sr] by simp_all
    then show ?thesis
      using handlePaymentSuccess_eq[OF row key, of env "proof"] True sr m4[of st5]
      by (simp add: Let_def updateNotionRecord_calls)
  qed
qed

lemma demo_paid_resolves:
  "\<not> isl (fst (handlePaymentSuccess demoEnv (created askPayment) demoId (Some ''proof-1'')))"
  "\<not> isl (fst (handlePaymentSuccess demoEnv (created refundable) demoId (Some ''proof-1'')))"
  by (simp_all add: model_defs demo_defs Let_def)

text \<open>
  Claim C1 does not hold as stated: after a first successful call, a second call of
  \<^verbatim>\<open>handlePaymentSuccess\<close> with the same identifier and proof succeeds again, and the two
  calls leave two transaction records and two Notion updates.
\<close>

theorem duplicate_settlement_counterexample:
  "\<not> isl (fst (handlePaymentSuccess demoEnv (created askPayment) demoId (Some ''proof-1'')))
   \<and> statusOf (paid askPayment) demoId = Some ''payment_received''
   \<and> length (transactions (paid askPayment)) = 1
   \<and> length (notionCalls (paid askPayment)) = 1
   \<and> \<not> isl (fst (handlePaymentSuccess demoEnv (paid askPayment) demoId (Some ''proof-1'')))
   \<and> length (transactions (paidTwice askPayment)) = 2
   \<and> length (notionCalls (paidTwice askPayment)) = 2"
  by (simp add: model_defs demo_defs Let_def)

text \<open>
  Claim C1, amended. \<^verbatim>\<open>handlePaymentSuccess\<close> has no guard on the status. After a call that
  succeeded the route is gone, and a second call with the same identifier succeeds as well:
  it finds the request in the database, writes \<^verbatim>\<open>paidAt\<close> and \<^verbatim>\<open>paymentHash\<close> anew, with its
  own reading of the clock and its own proof, and appends a transaction record of its own.
  The two calls leave two more transaction records than there were and, for a user whose
  incoming payments are mirrored to Notion, two more Notion updates.
\<close>

theorem handlePaymentSuccess_twice:
  assumes "handlePaymentSuccess env st pid proof = (Inr res, st1)"
  shows "isl (routeLookup st1 pid)
     \<and> (\<exists>res2 st2. handlePaymentSuccess env st1 pid proof2 = (Inr res2, st2)
           \<and> pr_paidAt (fst res2) = Some (clock env (reads st1))
           \<and> pr_paymentHash (fst res2) = Some (orElse proof2 ''X402_VERIFIED'')
           \<and> map_option pr_paidAt (findUniqueRequest st2 pid)
               = Some (Some (clock env (reads st1)))
           \<and> map_option pr_paymentHash (findUniqueRequest st2 pid)
               = Some (Some (orElse proof2 ''X402_VERIFIED''))
           \<and> length (transactions st2) = length (transactions st) + 2
           \<and> length (notionCalls st2) =
               length (notionCalls st)
                 + (if mirrorsIncoming st (pr_userId (fst res)) then 2 else 0))"
proof -
  from handlePaymentSuccess_Inr[OF assms] obtain row where
    row: "findUniqueRequest st pid = Some row"
    and key: "\<And>c. paymentRoutes st pid = Some c \<Longrightarrow> rc_userId c \<noteq> []"
    and email: "pr_transactionType row = ''ask_and_refund'' \<Longrightarrow> pr_recipientEmail row \<noteq> None"
    by blast
  define row1 where "row1 = (if pr_transactionType row = ''ask_and_refund''
               then (paymentReceived proof (clock env (reads st)) row)
                      \<lparr>pr_refundDate := Some (addDays env (clock env (Suc (Suc (reads st)))) 30)\<rparr>
               else paymentReceived proof (clock env (reads st)) row)"
  have row1_fields: "pr_userId row1 = pr_userId row"
    "pr_transactionType row1 = pr_transactionType row"
    "pr_recipientEmail row1 = pr_recipientEmail row"
    by (simp_all add: row1_def)
  from handlePaymentSuccess_resolves[OF row key email, of env "proof"] assms
  have res: "fst res = paymentReceived proof (clock env (reads st)) row"
    and len1: "length (transactions st1) = Suc (length (transactions st))"
    and route1: "paymentRoutes st1 pid = None"
    and row1: "findUniqueRequest st1 pid = Some row1"
    by (auto simp: row1_def)
  from handlePaymentSuccess_mirror[OF row key email, of env "proof"] assms
  have users1: "users st1 = users st"
    and calls1: "length (notionCalls st1) =
         length (notionCalls st) + (if mirrorsIncoming st (pr_userId row) then 1 else 0)"
    by auto
  have key1: "\<And>c. paymentRoutes st1 pid = Some c \<Longrightarrow> rc_userId c \<noteq> []"
    using route1 by simp
  have email1: "pr_transactionType row1 = ''ask_and_refund'' \<Longrightarrow> pr_recipientEmail row1 \<noteq> None"
    using email by (simp add: row1_fields)
  define r2 where "r2 = paymentReceived proof2 (clock env (reads st1)) row1"
  from handlePaymentSuccess_resolves[OF row1 key1 email1, of env proof2]
  obtain to2 st2 where
    ok2: "handlePaymentSuccess env st1 pid proof2 = (Inr (r2, to2), st2)"
    and len2: "length (transactions st2) = Suc (length (transactions st1))"
    and row2: "findUniqueRequest st2 pid =
              Some (if pr_transactionType row1 = ''ask_and_refund''
                    then r2\<lparr>pr_refundDate := Some (addDays env (clock env (Suc (Suc (reads st1)))) 30)\<rparr>
                    else r2)"
    unfolding r2_def by blast
  from handlePaymentSuccess_mirror[OF row1 key1 email1, of env proof2] ok2
  have calls2: "length (notionCalls st2) =
         length (notionCalls st1) + (if mirrorsIncoming st1 (pr_userId row1) then 1 else 0)"
    by auto
  have same: "mirrorsIncoming st1 (pr_userId row1) = mirrorsIncoming st (pr_userId row)"
    using mirrorsIncoming_users[OF users1] by (simp add: row1_fields)
  have gone: "isl (routeLookup st1 pid)" using route1 by (simp add: routeLookup_def)
  have fields: "pr_paidAt r2 = Some (clock env (reads st1))"
    "pr_paymentHash r2 = Some (orElse proof2 ''X402_VERIFIED'')"
    by (simp_all add: r2_def paymentReceived_def)
  have stored: "map_option pr_paidAt (findUniqueRequest st2 pid) = Some (Some (clock env (reads st1)))"
    "map_option pr_paymentHash (findUniqueRequest st2 pid)
       = Some (Some (orElse proof2 ''X402_VERIFIED''))"
    using fields by (simp_all add: row2)
  have txs: "length (transactions st2) = length (transactions st) + 2"
    using len1 len2 by simp
  have calls: "length (notionCalls st2) =
               length (notionCalls st)
                 + (if mirrorsIncoming st (pr_userId (fst res)) then 2 else 0)"
    using calls1 calls2 same by (simp add: res)
  have "handlePaymentSuccess env st1 pid proof2 = (Inr (r2, to2), st2)
           \<and> pr_paidAt (fst (r2, to2)) = Some (clock env (reads st1))
           \<and> pr_paymentHash (fst (r2, to2)) = Some (orElse proof2 ''X402_VERIFIED'')
           \<and> map_option pr_paidAt (findUniqueRequest st2 pid)
               = Some (Some (clock env (reads st1)))
           \<and> map_option pr_paymentHash (findUniqueRequest st2 pid)
               = Some (Some (orElse proof2 ''X402_VERIFIED''))
           \<and> length (transactions st2) = length (transactions st) + 2
           \<and> length (notionCalls st2) =
               length (notionCalls st)
                 + (if mirrorsIncoming st (pr_userId (fst res)) then 2 else 0)"
    using ok2 fields stored txs calls by simp
  then show ?thesis using gone by blast
qed

text \<open>
  Claim C1, amended, at work: the request of Alice is paid once, and paid again with another
  proof.
\<close>

theorem handlePaymentSuccess_twice_witness:
  "\<not> isl (fst (handlePaymentSuccess demoEnv (created askPayment) demoId (Some ''proof-1'')))
   \<and> isl (routeLookup (paid askPayment) demoId)
   \<and> \<not> isl (fst (handlePaymentSuccess demoEnv (paid askPayment) demoId (Some ''proof-2'')))
   \<and> map_option pr_paymentHash
        (findUniqueRequest
           (snd (handlePaymentSuccess demoEnv (paid askPayment) demoId (Some ''proof-2''))) demoId)
       = Some (Some ''proof-2'')
   \<and> length (transactions
        (snd (handlePaymentSuccess demoEnv (paid askPayment) demoId (Some ''proof-2''))))
       = length (transactions (created askPayment)) + 2
   \<and> length (notionCalls
        (snd (handlePaymentSuccess demoEnv (paid askPayment) demoId (Some ''proof-2''))))
       = length (notionCalls (created askPayment)) + 2"
proof -
  obtain res st1 where
    ok: "handlePaymentSuccess demoEnv (created askPayment) demoId (Some ''proof-1'') = (Inr res, st1)"
    using resolved[OF demo_paid_resolves(1)] by blast
  have st1: "st1 = paid askPayment" using ok by (simp add: paid_def)
  have owner: "pr_userId (fst res) = ''alice''"
    using ok by (auto simp: model_defs demo_defs Let_def)
  have mirrored: "mirrorsIncoming (created askPayment) ''alice''"
    by (simp add: mirrorsIncoming_def model_defs demo_defs Let_def)
  from handlePaymentSuccess_twice[OF ok, of "Some ''proof-2''"] obtain res2 st2 where
    gone: "isl (routeLookup st1 demoId)"
    and ok2: "handlePaymentSuccess demoEnv st1 demoId (Some ''proof-2'') = (Inr res2, st2)"
    and hash: "map_option pr_paymentHash (findUniqueRequest st2 demoId)
                 = Some (Some (orElse (Some ''proof-2'') ''X402_VERIFIED''))"
    and len: "length (transactions st2) = length (transactions (created askPayment)) + 2"
    and calls: "length (notionCalls st2) =
               length (notionCalls (created askPayment))
                 + (if mirrorsIncoming (created askPayment) (pr_userId (fst res)) then 2 else 0)"
    by blast
  show ?thesis
    using ok ok2 gone hash len calls owner mirrored
    by (simp add: st1 orElse_def)
qed

subsection \<open>Cancellation\<close>

text \<open>
  Claim C3 does not hold as stated: cancelling a request whose status is
  \<^verbatim>\<open>payment_received\<close> succeeds and stores the status \<^verbatim>\<open>cancelled\<close>.
\<close>

theorem cancel_after_payment_counterexample:
  "statusOf (paid askPayment) demoId = Some ''payment_received''
   \<and> \<not> isl (fst (cancelPaymentRequest (paid askPayment) demoId))
   \<and> statusOf (snd (cancelPaymentRequest (paid askPayment) demoId)) demoId = Some ''cancelled''"
  by (simp add: model_defs demo_defs Let_def)

text \<open>
  Claim C3, amended. \<^verbatim>\<open>cancelPaymentRequest\<close> does not look at the status: for every stored
  request, \<^verbatim>\<open>payment_received\<close> included, it succeeds, stores the status \<^verbatim>\<open>cancelled\<close> and
  removes the route. It fails, leaving the state as it was, only when no request has the
  identifier.
\<close>

theorem cancel_any_status:
  "(findUniqueRequest st pid = Some r \<longrightarrow>
      fst (cancelPaymentRequest st pid) = Inr (r\<lparr>pr_status := ''cancelled''\<rparr>)
      \<and> statusOf (snd (cancelPaymentRequest st pid)) pid = Some ''cancelled''
      \<and> isl (routeLookup (snd (cancelPaymentRequest st pid)) pid))
   \<and> (findUniqueRequest st pid = None \<longrightarrow>
      cancelPaymentRequest st pid = (Inl (PrismaKnownRequestError ''P2025''), st))"
proof -
  have "statusOf (snd (cancelPaymentRequest st pid)) pid = Some ''cancelled''"
    if r: "findUniqueRequest st pid = Some r"
    using find_map_update[where f="\<lambda>x. x\<lparr>pr_status := ''cancelled''\<rparr>"
        and pid=pid and q=pid and rows="paymentRequests st"] r findUniqueRequest_Some[OF r]
    by (simp add: cancelPaymentRequest_def updateRequest_def statusOf_def findUniqueRequest_def)
  then show ?thesis
    by (auto simp: cancelPaymentRequest_def updateRequest_def routeLookup_def)
qed

text \<open>
  Claim C3, amended, at work: the paid request is cancelled, and cancelling an unknown
  identifier fails without effect.
\<close>

theorem cancel_any_status_witness:
  "statusOf (paid askPayment) demoId = Some ''payment_received''
   \<and> statusOf (snd (cancelPaymentRequest (paid askPayment) demoId)) demoId = Some ''cancelled''
   \<and> isl (routeLookup (snd (cancelPaymentRequest (paid askPayment) demoId)) demoId)
   \<and> cancelPaymentRequest emptyState demoId = (Inl (PrismaKnownRequestError ''P2025''), emptyState)"
proof -
  have paid_status: "statusOf (paid askPayment) demoId = Some ''payment_received''"
    by (simp add: model_defs demo_defs Let_def)
  then obtain r where r: "findUniqueRequest (paid askPayment) demoId = Some r"
    by (auto simp: statusOf_def)
  have none: "findUniqueRequest emptyState demoId = None"
    by (simp add: findUniqueRequest_def emptyState_def)
  show ?thesis
    using cancel_any_status[of "paid askPayment" demoId r] cancel_any_status[of emptyState demoId r]
      r none paid_status
    by simp
qed

subsection \<open>The refund cycle\<close>

lemma updateNotionIncomingPayment_fields [simp]:
  "paymentRequests (updateNotionIncomingPayment st u r) = paymentRequests st"
  "paymentRoutes (updateNotionIncomingPayment st u r) = paymentRoutes st"
  "transactions (updateNotionIncomingPayment st u r) = transactions st"
  "outgoingPayments (updateNotionIncomingPayment st u r) = outgoingPayments st"
  "sendCalls (updateNotionIncomingPayment st u r) = sendCalls st"
  by (simp_all add: updateNotionIncomingPayment_def)

lemma executeRefund_requests:
  "paymentRequests (executeRefund env st q) =
     map (\<lambda>x. if refundSent env q \<and> pr_id x = pr_id q
               then x\<lparr>pr_status := ''refunded''\<rparr> else x)
       (paymentRequests st)"
proof (cases "findUniqueRequest st (pr_id q)")
  case None
  then have "map (\<lambda>x. if pr_id x = pr_id q then x\<lparr>pr_status := ''refunded''\<rparr> else x)
               (paymentRequests st) = paymentRequests st"
    using map_update_absent[of "pr_id q" "paymentRequests st"]
    by (simp add: findUniqueRequest_None)
  then show ?thesis
    using None
    by (cases "refundSent env q")
      (simp_all add: executeRefund_def refundSent_def Let_def updateRequest_def
        findUniqueRequest_def newDate_def split: SendOutcome.splits)
next
  case (Some r)
  then show ?thesis
    by (simp add: executeRefund_def refundSent_def Let_def updateRequest_def
        findUniqueRequest_def newDate_def split: SendOutcome.splits)
qed

lemma executeRefund_fields:
  "outgoingPayments (executeRefund env st q) = outgoingPayments st"
  "paymentRoutes (executeRefund env st q) = paymentRoutes st"
  "sendCalls (executeRefund env st q) = sendCalls st @
     [\<lparr> sc_userId = pr_userId q, sc_toAddress = pr_recipientEmail q,
        sc_amount = pr_amount q, sc_currency = pr_currency q, sc_network = pr_network q \<rparr>]"
  by (simp_all add: executeRefund_def Let_def updateRequest_def newDate_def
      split: SendOutcome.splits option.splits)

lemma foldl_executeRefund_requests:
  "paymentRequests (foldl (executeRefund env) st due) =
     map (\<lambda>x. if pr_id x \<in> pr_id ` {q \<in> set due. refundSent env q}
               then x\<lparr>pr_status := ''refunded''\<rparr> else x)
       (paymentRequests st)"
proof (induction due arbitrary: st)
  case Nil
  then show ?case by simp
next
  case (Cons q due)
  show ?case
    by (auto simp: Cons.IH executeRefund_requests)
qed

lemma foldl_executeRefund_fields:
  "outgoingPayments (foldl (executeRefund env) st due) = outgoingPayments st"
  "paymentRoutes (foldl (executeRefund env) st due) = paymentRoutes st"
  by (induction due arbitrary: st) (simp_all add: executeRefund_fields)

lemma foldl_executeRefund_sendCalls:
  "sendCalls (foldl (executeRefund env) st due) = sendCalls st @
     map (\<lambda>q. \<lparr> sc_userId = pr_userId q, sc_toAddress = pr_recipientEmail q,
                 sc_amount = pr_amount q, sc_currency = pr_currency q,
                 sc_network = pr_network q \<rparr>) due"
  by (induction due arbitrary: st) (simp_all add: executeRefund_fields)

lemma unique_row:
  assumes "uniqueIds st" and "findUniqueRequest st pid = Some row"
    and "x \<in> set (paymentRequests st)" and "pr_id x = pid"
  shows "x = row"
proof -
  have "inj_on pr_id (set (paymentRequests st))"
    using assms(1) by (simp add: uniqueIds_def distinct_map)
  then show ?thesis
    using findUniqueRequest_Some[OF assms(2)] assms(3,4) by (auto dest: inj_onD)
qed

lemma demo_paid_refundable:
  "findUniqueRequest (paid refundable) demoId = Some paidRefundable"
  by (simp add: model_defs demo_defs Let_def)

text \<open>
  Claim C8 does not hold as stated: the refund cycle moves the paid request to \<^verbatim>\<open>refunded\<close>
  while the outgoing payment that \<^verbatim>\<open>scheduleRefund\<close> recorded for it is still
  \<^verbatim>\<open>scheduled\<close>, and with no outgoing payment on record it moves the request to
  \<^verbatim>\<open>refunded\<close> as well, creating none.
\<close>

theorem refund_cycle_counterexample:
  "statusOf (paid refundable) demoId = Some ''payment_received''
   \<and> map op_status (outgoingPayments (paid refundable)) = [''scheduled'']
   \<and> statusOf (processScheduledRefunds laterEnv (paid refundable)) demoId = Some ''refunded''
   \<and> map op_status (outgoingPayments (processScheduledRefunds laterEnv (paid refundable)))
       = [''scheduled'']
   \<and> statusOf (processScheduledRefunds laterEnv ((paid refundable)\<lparr>outgoingPayments := []\<rparr>))
        demoId = Some ''refunded''
   \<and> outgoingPayments
        (processScheduledRefunds laterEnv ((paid refundable)\<lparr>outgoingPayments := []\<rparr>)) = []"
  by (simp add: model_defs demo_defs Let_def)

text \<open>
  Claim C8, amended. For a request of kind \<^verbatim>\<open>ask_and_refund\<close> with status
  \<^verbatim>\<open>payment_received\<close> whose refund date is not after the reading of the clock, the refund
  cycle calls the send primitive itself, with the data of the request, and stores the status
  \<^verbatim>\<open>refunded\<close> when that send succeeds; when it does not, the request keeps its status. The
  cycle neither creates nor changes an outgoing payment.
\<close>

theorem refund_cycle_sends_directly:
  assumes "findUniqueRequest st pid = Some r"
    and "pr_transactionType r = ''ask_and_refund''"
    and "pr_status r = ''payment_received''"
    and "lte (pr_refundDate r) (clock env (reads st))"
  shows "outgoingPayments (processScheduledRefunds env st) = outgoingPayments st
   \<and> \<lparr> sc_userId = pr_userId r, sc_toAddress = pr_recipientEmail r, sc_amount = pr_amount r,
        sc_currency = pr_currency r, sc_network = pr_network r \<rparr>
       \<in> set (sendCalls (processScheduledRefunds env st))
   \<and> (refundSent env r \<longrightarrow>
        statusOf (processScheduledRefunds env st) pid = Some ''refunded'')
   \<and> (uniqueIds st \<and> \<not> refundSent env r \<longrightarrow>
        statusOf (processScheduledRefunds env st) pid = Some ''payment_received'')"
proof -
  let ?due = "filter (\<lambda>r. pr_transactionType r = ''ask_and_refund''
                          \<and> pr_status r = ''payment_received''
                          \<and> lte (pr_refundDate r) (clock env (reads st)))
              (paymentRequests st)"
  let ?g = "\<lambda>x. if pr_id x \<in> pr_id ` {q \<in> set ?due. refundSent env q}
                 then x\<lparr>pr_status := ''refunded''\<rparr> else x"
  have in_rows: "r \<in> set (paymentRequests st)" and pid: "pr_id r = pid"
    using findUniqueRequest_Some[OF assms(1)] by simp_all
  have due: "r \<in> set ?due" using assms in_rows by simp
  have cycle: "processScheduledRefunds env st =
                 foldl (executeRefund env) (st\<lparr>reads := Suc (reads st)\<rparr>) ?due"
    by (simp add: processScheduledRefunds_def newDate_def)
  have ops: "outgoingPayments (processScheduledRefunds env st) = outgoingPayments st"
    by (simp add: cycle foldl_executeRefund_fields)
  have calls: "\<lparr> sc_userId = pr_userId r, sc_toAddress = pr_recipientEmail r,
                  sc_amount = pr_amount r, sc_currency = pr_currency r,
                  sc_network = pr_network r \<rparr>
                \<in> set (sendCalls (processScheduledRefunds env st))"
    unfolding cycle foldl_executeRefund_sendCalls using due by auto
  have rows: "paymentRequests (processScheduledRefunds env st) = map ?g (paymentRequests st)"
    by (simp add: cycle foldl_executeRefund_requests)
  have found: "findUniqueRequest (processScheduledRefunds env st) pid = Some (?g r)"
    unfolding findUniqueRequest_def rows
    using find_map_pred[of ?g pid "paymentRequests st"] assms(1)
    by (simp add: findUniqueRequest_def)
  have sent: "statusOf (processScheduledRefunds env st) pid = Some ''refunded''"
    if "refundSent env r"
  proof -
    have "pr_id r \<in> pr_id ` {q \<in> set ?due. refundSent env q}" using due that by blast
    then show ?thesis using found by (simp add: statusOf_def)
  qed
  have unsent: "statusOf (processScheduledRefunds env st) pid = Some ''payment_received''"
    if u: "uniqueIds st" and n: "\<not> refundSent env r"
  proof -
    have "pr_id r \<notin> pr_id ` {q \<in> set ?due. refundSent env q}"
    proof
      assume "pr_id r \<in> pr_id ` {q \<in> set ?due. refundSent env q}"
      then obtain q where q: "q \<in> set ?due" "refundSent env q" "pr_id q = pr_id r" by auto
      then have "q = r" using unique_row[OF u assms(1), of q] pid by simp
      then show False using q n by simp
    qed
    then show ?thesis using found assms(3) by (simp add: statusOf_def)
  qed
  show ?thesis using ops calls sent unsent by blast
qed

text \<open>
  Claim C8, amended, at work: three years on, the refund cycle sends the refund of the paid
  request and stores \<^verbatim>\<open>refunded\<close>; the outgoing payments are what they were. Where the
  send is rejected, the request stays \<^verbatim>\<open>payment_received\<close>.
\<close>

theorem refund_cycle_sends_directly_witness:
  "findUniqueRequest (paid refundable) demoId = Some paidRefundable
   \<and> lte (pr_refundDate paidRefundable) (clock laterEnv (reads (paid refundable)))
   \<and> refundSent laterEnv paidRefundable
   \<and> statusOf (processScheduledRefunds laterEnv (paid refundable)) demoId = Some ''refunded''
   \<and> outgoingPayments (processScheduledRefunds laterEnv (paid refundable))
       = outgoingPayments (paid refundable)
   \<and> uniqueIds (paid refundable) \<and> \<not> refundSent failingEnv paidRefundable
   \<and> statusOf (processScheduledRefunds failingEnv (paid refundable)) demoId
       = Some ''payment_received''"
proof -
  have h: "pr_transactionType paidRefundable = ''ask_and_refund''"
    "pr_status paidRefundable = ''payment_received''"
    by (simp_all add: paidRefundable_def)
  have due: "lte (pr_refundDate paidRefundable) (clock laterEnv (reads (paid refundable)))"
    "lte (pr_refundDate paidRefundable) (clock failingEnv (reads (paid refundable)))"
    by (simp_all add: paidRefundable_def lte_def failingEnv_def laterEnv_def demoEnv_def)
  have sent: "refundSent laterEnv paidRefundable" "\<not> refundSent failingEnv paidRefundable"
    by (simp_all add: refundSent_def failingEnv_def laterEnv_def demoEnv_def)
  have u: "uniqueIds (paid refundable)"
    by (simp add: uniqueIds_def model_defs demo_defs Let_def)
  show ?thesis
    using refund_cycle_sends_directly[OF demo_paid_refundable h due(1)]
      refund_cycle_sends_directly[OF demo_paid_refundable h due(2)]
      demo_paid_refundable due sent u
    by simp
qed

text \<open>
  Claim C10. A refund goes to the recipient email of the payment request: when
  \<^verbatim>\<open>scheduleRefund\<close> succeeds, the outgoing payment it records has that email as its
  recipient address; and \<^verbatim>\<open>executeRefund\<close> makes one call of the send primitive, whose
  destination is that email.
\<close>

theorem refund_recipient_is_email:
  "(\<forall>op st'. scheduleRefund env st r = (Inr op, st') \<longrightarrow>
       pr_recipientEmail r = Some (op_recipientAddress op)
       \<and> outgoingPayments st' = outgoingPayments st @ [op])
   \<and> map sc_toAddress (sendCalls (executeRefund env st r))
       = map sc_toAddress (sendCalls st) @ [pr_recipientEmail r]"
  using scheduleRefund_Inr(1,2)[of env st r] by (simp add: executeRefund_fields)

text \<open>
  Claim C10 at work: the refund of the paid request is recorded for, and sent to,
  \<^verbatim>\<open>payer@example.com\<close>.
\<close>

theorem refund_recipient_is_email_witness:
  "\<not> isl (fst (scheduleRefund demoEnv (paid refundable) paidRefundable))
   \<and> map op_recipientAddress
        (outgoingPayments (snd (scheduleRefund demoEnv (paid refundable) paidRefundable)))
       = [''payer@example.com'', ''payer@example.com'']
   \<and> map sc_toAddress (sendCalls (executeRefund laterEnv (paid refundable) paidRefundable))
       = [Some ''payer@example.com'']"
proof -
  have ok: "\<not> isl (fst (scheduleRefund demoEnv (paid refundable) paidRefundable))"
    by (simp add: model_defs demo_defs Let_def)
  then obtain op st' where
    sr: "scheduleRefund demoEnv (paid refundable) paidRefundable = (Inr op, st')"
    using resolved by blast
  have before: "map op_recipientAddress (outgoingPayments (paid refundable))
                  = [''payer@example.com'']"
    "sendCalls (paid refundable) = []"
    "pr_recipientEmail paidRefundable = Some ''payer@example.com''"
    by (simp_all add: model_defs demo_defs Let_def)
  show ?thesis
    using refund_recipient_is_email[of demoEnv "paid refundable" paidRefundable]
      refund_recipient_is_email[of laterEnv "paid refundable" paidRefundable]
      sr ok before
    by auto
qed

subsection \<open>The registry built at construction\<close>



subsection \<open>The timer of the gateway\<close>

text \<open>
  Claim C5 does not hold as stated: for the pending request of kind \<^verbatim>\<open>ask_and_refund\<close>
  without recipient email, whose route is live, the timer answers a call that carries a
  proof with status 400, not with the success page, and the request is stored as
  \<^verbatim>\<open>payment_received\<close> all the same.
\<close>

theorem timeout_without_success_page_counterexample:
  "\<not> ex_middlewareCompleted pendingWithProof \<and> \<not> headersSent pendingWithProof
   \<and> truthy (ex_xPayment pendingWithProof)
   \<and> \<not> isl (routeLookup (created refundableNoEmail) demoId)
   \<and> map_option rs_status
        (ex_sent (snd (timeoutCallback demoEnv (created refundableNoEmail) demoId
                         pendingWithProof)))
       = Some 400
   \<and> statusOf (fst (timeoutCallback demoEnv (created refundableNoEmail) demoId
                        pendingWithProof)) demoId
       = Some ''payment_received''"
  by (simp add: model_defs demo_defs Let_def)

text \<open>
  Claim C5, amended. When the timer fires and the middleware has neither called back nor
  sent a response, the gateway answers. With a proof in the header \<^verbatim>\<open>x-payment\<close> (a header
  that is present and not empty) it runs \<^verbatim>\<open>handlePaymentSuccess\<close>; when that call returns
  it sends the success page with status 200, and when it throws it answers 400 with the
  error \<^verbatim>\<open>Payment verification failed\<close>. The call returns, and leaves the request stored
  as \<^verbatim>\<open>payment_received\<close>, for every stored request other than one of kind
  \<^verbatim>\<open>ask_and_refund\<close> without recipient email (the user id of a route being non-empty).
  Without a proof the gateway answers 500 with the error
  \<^verbatim>\<open>X402 payment processing timeout\<close> and changes nothing.
\<close>

theorem timeout_gives_definite_response:
  assumes "\<not> ex_middlewareCompleted ex" and "\<not> headersSent ex"
  shows "ex_sent (snd (timeoutCallback env st pid ex)) \<noteq> None
   \<and> (truthy (ex_xPayment ex) \<longrightarrow>
        fst (timeoutCallback env st pid ex)
          = snd (handlePaymentSuccess env st pid (ex_xPayment ex))
        \<and> (\<forall>r to st'. handlePaymentSuccess env st pid (ex_xPayment ex) = (Inr (r, to), st') \<longrightarrow>
             ex_sent (snd (timeoutCallback env st pid ex)) =
               Some \<lparr> rs_status = 200,
                      rs_body = Html \<lparr> sp_paymentId = pid, sp_amount = pr_amount r,
                                        sp_currency = pr_currency r,
                                        sp_description = pr_description r,
                                        sp_walletAddress = to \<rparr> \<rparr>)
        \<and> (\<forall>err st'. handlePaymentSuccess env st pid (ex_xPayment ex) = (Inl err, st') \<longrightarrow>
             ex_sent (snd (timeoutCallback env st pid ex)) =
               Some \<lparr> rs_status = 400,
                      rs_body = Json \<lparr> jb_error = ''Payment verification failed'',
                                        jb_details = Some err,
                                        jb_paymentId = Some pid \<rparr> \<rparr>)
        \<and> (\<forall>row. findUniqueRequest st pid = Some row
                  \<and> (\<forall>c. paymentRoutes st pid = Some c \<longrightarrow> rc_userId c \<noteq> [])
                  \<and> (pr_transactionType row = ''ask_and_refund'' \<longrightarrow>
                       pr_recipientEmail row \<noteq> None) \<longrightarrow>
             map_option rs_status (ex_sent (snd (timeoutCallback env st pid ex))) = Some 200
             \<and> statusOf (fst (timeoutCallback env st pid ex)) pid = Some ''payment_received''))
   \<and> (\<not> truthy (ex_xPayment ex) \<longrightarrow>
        timeoutCallback env st pid ex =
          (st, respond (ex\<lparr>ex_middlewareCompleted := True\<rparr>) 500
                 (Json \<lparr> jb_error = ''X402 payment processing timeout'',
                         jb_details = None, jb_paymentId = Some pid \<rparr>)))"
proof -
  obtain out st1 where h: "handlePaymentSuccess env st pid (ex_xPayment ex) = (out, st1)"
    by (cases "handlePaymentSuccess env st pid (ex_xPayment ex)") auto
  have answered: "ex_sent (snd (timeoutCallback env st pid ex)) \<noteq> None"
    using assms h
    by (cases out) (auto simp: timeoutCallback_def respond_def Let_def split: prod.splits)
  have settled: "fst (timeoutCallback env st pid ex) = st1" if "truthy (ex_xPayment ex)"
    using assms h that
    by (cases out) (auto simp: timeoutCallback_def respond_def Let_def split: prod.splits)
  have page: "ex_sent (snd (timeoutCallback env st pid ex)) =
               Some \<lparr> rs_status = 200,
                      rs_body = Html \<lparr> sp_paymentId = pid, sp_amount = pr_amount r,
                                        sp_currency = pr_currency r,
                                        sp_description = pr_description r,
                                        sp_walletAddress = to \<rparr> \<rparr>"
    if "truthy (ex_xPayment ex)" and "out = Inr (r, to)" for r to
    using assms h that by (simp add: timeoutCallback_def respond_def Let_def)
  have refused: "ex_sent (snd (timeoutCallback env st pid ex)) =
               Some \<lparr> rs_status = 400,
                      rs_body = Json \<lparr> jb_error = ''Payment verification failed'',
                                        jb_details = Some err,
                                        jb_paymentId = Some pid \<rparr> \<rparr>"
    if "truthy (ex_xPayment ex)" and "out = Inl err" for err
    using assms h that by (simp add: timeoutCallback_def respond_def Let_def)
  have stored: "map_option rs_status (ex_sent (snd (timeoutCallback env st pid ex))) = Some 200
             \<and> statusOf (fst (timeoutCallback env st pid ex)) pid = Some ''payment_received''"
    if t: "truthy (ex_xPayment ex)" and row: "findUniqueRequest st pid = Some row"
      and key: "\<And>c. paymentRoutes st pid = Some c \<Longrightarrow> rc_userId c \<noteq> []"
      and email: "pr_transactionType row = ''ask_and_refund'' \<Longrightarrow> pr_recipientEmail row \<noteq> None"
    for row
  proof -
    from handlePaymentSuccess_resolves[OF row key email, of env "ex_xPayment ex"] h
    obtain to where out: "out = Inr (paymentReceived (ex_xPayment ex) (clock env (reads st)) row, to)"
      and found: "statusOf st1 pid = Some ''payment_received''"
      by (auto simp: statusOf_def)
    show ?thesis using page[OF t out] settled[OF t] found by simp
  qed
  have timeout: "timeoutCallback env st pid ex =
          (st, respond (ex\<lparr>ex_middlewareCompleted := True\<rparr>) 500
                 (Json \<lparr> jb_error = ''X402 payment processing timeout'',
                         jb_details = None, jb_paymentId = Some pid \<rparr>))"
    if "\<not> truthy (ex_xPayment ex)"
    using assms that by (simp add: timeoutCallback_def Let_def)
  show ?thesis
    using answered settled page refused stored timeout h by auto
qed

text \<open>
  Claim C5, amended, at work: for the pending request of Alice, the timer answers a call
  that carries a proof with the success page and stores the payment; it answers a call
  without a proof with the timeout error; and for the refundable request without recipient
  email, where \<^verbatim>\<open>handlePaymentSuccess\<close> throws, it answers 400.
\<close>

theorem timeout_gives_definite_response_witness:
  "\<not> ex_middlewareCompleted pendingWithProof \<and> \<not> headersSent pendingWithProof
   \<and> truthy (ex_xPayment pendingWithProof)
   \<and> map_option rs_status
        (ex_sent (snd (timeoutCallback demoEnv (created askPayment) demoId pendingWithProof)))
       = Some 200
   \<and> statusOf (fst (timeoutCallback demoEnv (created askPayment) demoId pendingWithProof)) demoId
       = Some ''payment_received''
   \<and> \<not> truthy (ex_xPayment pendingWithoutProof)
   \<and> map_option rs_status
        (ex_sent (snd (timeoutCallback demoEnv (created askPayment) demoId pendingWithoutProof)))
       = Some 500
   \<and> isl (fst (handlePaymentSuccess demoEnv (created refundableNoEmail) demoId
                  (ex_xPayment pendingWithProof)))
   \<and> map_option rs_status
        (ex_sent (snd (timeoutCallback demoEnv (created refundableNoEmail) demoId
                         pendingWithProof)))
       = Some 400"
proof -
  have p: "\<not> ex_middlewareCompleted pendingWithProof" "\<not> headersSent pendingWithProof"
    "truthy (ex_xPayment pendingWithProof)"
    by (simp_all add: pendingWithProof_def headersSent_def truthy_def)
  have q: "\<not> ex_middlewareCompleted pendingWithoutProof" "\<not> headersSent pendingWithoutProof"
    "\<not> truthy (ex_xPayment pendingWithoutProof)"
    by (simp_all add: pendingWithoutProof_def headersSent_def truthy_def)
  obtain row where row: "findUniqueRequest (created askPayment) demoId = Some row"
    and kind: "pr_transactionType row = ''ask_payment''"
    by (simp add: model_defs demo_defs Let_def)
  have key: "\<forall>c. paymentRoutes (created askPayment) demoId = Some c \<longrightarrow> rc_userId c \<noteq> []"
    by (simp add: model_defs demo_defs Let_def)
  have "map_option rs_status
        (ex_sent (snd (timeoutCallback demoEnv (created askPayment) demoId pendingWithProof)))
       = Some 200
   \<and> statusOf (fst (timeoutCallback demoEnv (created askPayment) demoId pendingWithProof)) demoId
       = Some ''payment_received''"
    using timeout_gives_definite_response[OF p(1,2), of demoEnv "created askPayment" demoId]
      p(3) row kind key
    by auto
  moreover have "map_option rs_status
        (ex_sent (snd (timeoutCallback demoEnv (created askPayment) demoId pendingWithoutProof)))
       = Some 500"
    using timeout_gives_definite_response[OF q(1,2), of demoEnv "created askPayment" demoId] q(3)
    by (simp add: respond_def)
  moreover have thrown: "isl (fst (handlePaymentSuccess demoEnv (created refundableNoEmail) demoId
                  (ex_xPayment pendingWithProof)))"
    by (simp add: model_defs demo_defs Let_def)
  moreover have "map_option rs_status
        (ex_sent (snd (timeoutCallback demoEnv (created refundableNoEmail) demoId
                         pendingWithProof)))
       = Some 400"
  proof -
    obtain err st' where
      "handlePaymentSuccess demoEnv (created refundableNoEmail) demoId
         (ex_xPayment pendingWithProof) = (Inl err, st')"
      using thrown
      by (cases "handlePaymentSuccess demoEnv (created refundableNoEmail) demoId
                   (ex_xPayment pendingWithProof)";
          cases "fst (handlePaymentSuccess demoEnv (created refundableNoEmail) demoId
                   (ex_xPayment pendingWithProof))") auto
    then show ?thesis
      using timeout_gives_definite_response[OF p(1,2), of demoEnv "created refundableNoEmail"
          demoId] p(3)
      by simp
  qed
  ultimately show ?thesis using p q by simp
qed

subsection \<open>The refund date\<close>

lemma inv_map:
  assumes rows: "paymentRequests st' = map g (paymentRequests st)"
    and ids: "\<And>x. x \<in> set (paymentRequests st) \<Longrightarrow> pr_id (g x) = pr_id x"
    and ok: "\<And>x. x \<in> set (paymentRequests st) \<Longrightarrow>
               (pr_refundDate x \<noteq> None \<longrightarrow>
                  pr_transactionType x = ''ask_and_refund'' \<and> pr_paidAt x \<noteq> None) \<Longrightarrow>
               (pr_refundDate (g x) \<noteq> None \<longrightarrow>
                  pr_transactionType (g x) = ''ask_and_refund'' \<and> pr_paidAt (g x) \<noteq> None)"
    and inv: "uniqueIds st \<and> refundDateOnlyWhenPaid st"
  shows "uniqueIds st' \<and> refundDateOnlyWhenPaid st'"
proof -
  have "map pr_id (paymentRequests st') = map pr_id (paymentRequests st)"
    using ids by (simp add: rows)
  then have "uniqueIds st'" using inv by (simp add: uniqueIds_def)
  moreover have "refundDateOnlyWhenPaid st'"
    using inv ok unfolding refundDateOnlyWhenPaid_def rows list_all_iff by auto
  ultimately show ?thesis by simp
qed

lemma inv_same:
  assumes "paymentRequests st' = paymentRequests st"
    and "uniqueIds st \<and> refundDateOnlyWhenPaid st"
  shows "uniqueIds st' \<and> refundDateOnlyWhenPaid st'"
  using assms by (simp add: uniqueIds_def refundDateOnlyWhenPaid_def)

lemma createPaymentRequest_Inl:
  assumes "createPaymentRequest env st p = (Inl e, st')"
  shows "paymentRequests st' = paymentRequests st"
  using assms
  by (auto simp: createPaymentRequest_def newDate_def Let_def
      split: option.splits if_splits prod.splits)

lemma createPaymentRequest_inv:
  assumes "uniqueIds st \<and> refundDateOnlyWhenPaid st"
  shows "uniqueIds (snd (createPaymentRequest env st p))
         \<and> refundDateOnlyWhenPaid (snd (createPaymentRequest env st p))"
proof (cases "createPaymentRequest env st p")
  case (Pair out st')
  show ?thesis
  proof (cases out)
    case (Inl e)
    then show ?thesis
      using inv_same[OF createPaymentRequest_Inl assms] Pair by simp
  next
    case (Inr res)
    then have c: "createPaymentRequest env st p = (Inr res, st')" using Pair by simp
    show ?thesis
      using assms createPaymentRequest_Inr(2,3,4,7)[OF c] Pair
      by (simp add: uniqueIds_def refundDateOnlyWhenPaid_def)
  qed
qed

lemma handlePaymentSuccess_inv:
  assumes inv: "uniqueIds st \<and> refundDateOnlyWhenPaid st"
  shows "uniqueIds (snd (handlePaymentSuccess env st pid proof))
         \<and> refundDateOnlyWhenPaid (snd (handlePaymentSuccess env st pid proof))"
proof (cases "findUniqueRequest st pid")
  case None
  then show ?thesis
    using inv_same[OF handlePaymentSuccess_no_row(2) inv] by simp
next
  case (Some row)
  show ?thesis
  proof (cases "\<exists>c. paymentRoutes st pid = Some c \<and> rc_userId c = []")
    case True
    then show ?thesis using handlePaymentSuccess_bad_key[of st pid _ env "proof"] inv by auto
  next
    case False
    then have key: "\<And>c. paymentRoutes st pid = Some c \<Longrightarrow> rc_userId c \<noteq> []" by auto
    let ?t = "clock env (reads st)"
    let ?r = "paymentReceived proof ?t row"
    let ?to = "walletAddressOf (users st (case paymentRoutes st pid of
                                             Some c \<Rightarrow> rc_userId c | None \<Rightarrow> pr_userId row))"
    let ?st4 = "st\<lparr>paymentRequests :=
                     map (\<lambda>x. if pr_id x = pid then paymentReceived proof ?t x else x)
                       (paymentRequests st),
                   reads := Suc (Suc (reads st)),
                   transactions := transactions st @
                     [incomingTransaction ?r ?to pid proof (clock env (Suc (reads st)))]\<rparr>"
    have inv4: "uniqueIds st4 \<and> refundDateOnlyWhenPaid st4"
      if "paymentRequests st4 = paymentRequests ?st4" for st4
      using inv_map[where g="\<lambda>x. if pr_id x = pid then paymentReceived proof ?t x else x"
          and st=st and st'=st4] that inv
      by simp
    obtain out st5 where sr: "scheduleRefund env ?st4 ?r = (out, st5)"
      by (cases "scheduleRefund env ?st4 ?r") auto
    show ?thesis
    proof (cases "pr_transactionType row = ''ask_and_refund''")
      case False
      then show ?thesis
        using handlePaymentSuccess_eq[OF Some key, of env "proof"] inv4
        by (simp add: Let_def)
    next
      case aar: True
      show ?thesis
      proof (cases out)
        case (Inl e)
        then have "paymentRequests st5 = paymentRequests ?st4"
          using scheduleRefund_Inl sr by blast
        then show ?thesis
          using handlePaymentSuccess_eq[OF Some key, of env "proof"] inv4 aar sr Inl
          by (simp add: Let_def)
      next
        case (Inr op)
        have pid: "pr_id row = pid" using findUniqueRequest_Some[OF Some] by simp
        have rows5: "paymentRequests st5 =
            map (\<lambda>x. if pr_id x = pid
                      then (paymentReceived proof ?t x)
                             \<lparr>pr_refundDate := Some (addDays env (clock env (Suc (Suc (reads st)))) 30)\<rparr>
                      else x)
              (paymentRequests st)"
          using scheduleRefund_Inr(5)[of env ?st4 ?r op st5] sr Inr pid by (simp add: comp_def)
        have kind: "pr_transactionType x = ''ask_and_refund''"
          if "x \<in> set (paymentRequests st)" "pr_id x = pid" for x
          using unique_row[OF _ Some that] inv aar by simp
        have "uniqueIds st5 \<and> refundDateOnlyWhenPaid st5"
          using inv_map[OF rows5 _ _ inv] kind by simp
        then have "uniqueIds st6 \<and> refundDateOnlyWhenPaid st6"
          if "paymentRequests st6 = paymentRequests st5" for st6
          using that by (simp add: uniqueIds_def refundDateOnlyWhenPaid_def)
        then show ?thesis
          using handlePaymentSuccess_eq[OF Some key, of env "proof"] aar sr Inr
          by (simp add: Let_def)
      qed
    qed
  qed
qed

lemma cancelPaymentRequest_inv:
  assumes inv: "uniqueIds st \<and> refundDateOnlyWhenPaid st"
  shows "uniqueIds (snd (cancelPaymentRequest st pid))
         \<and> refundDateOnlyWhenPaid (snd (cancelPaymentRequest st pid))"
proof (cases "findUniqueRequest st pid")
  case None
  then show ?thesis using inv by (simp add: cancelPaymentRequest_def updateRequest_def)
next
  case (Some r)
  have "paymentRequests (snd (cancelPaymentRequest st pid)) =
          map (\<lambda>x. if pr_id x = pid then x\<lparr>pr_status := ''cancelled''\<rparr> else x)
            (paymentRequests st)"
    using Some by (simp add: cancelPaymentRequest_def updateRequest_def)
  from inv_map[OF this _ _ inv] show ?thesis by simp
qed

lemma processScheduledRequests_inv:
  assumes inv: "uniqueIds st \<and> refundDateOnlyWhenPaid st"
  shows "uniqueIds (processScheduledRequests env st)
         \<and> refundDateOnlyWhenPaid (processScheduledRequests env st)"
proof -
  have "\<exists>S. paymentRequests (processScheduledRequests env st) =
          map (\<lambda>x. if pr_id x \<in> S then x\<lparr>pr_status := ''processing''\<rparr> else x)
            (paymentRequests st)"
    by (auto simp: processScheduledRequests_def newDate_def foldl_activate_requests)
  then obtain S where "paymentRequests (processScheduledRequests env st) =
          map (\<lambda>x. if pr_id x \<in> S then x\<lparr>pr_status := ''processing''\<rparr> else x)
            (paymentRequests st)" by blast
  from inv_map[OF this _ _ inv] show ?thesis by simp
qed

lemma processScheduledRefunds_inv:
  assumes inv: "uniqueIds st \<and> refundDateOnlyWhenPaid st"
  shows "uniqueIds (processScheduledRefunds env st)
         \<and> refundDateOnlyWhenPaid (processScheduledRefunds env st)"
proof -
  have "\<exists>S. paymentRequests (processScheduledRefunds env st) =
          map (\<lambda>x. if pr_id x \<in> S then x\<lparr>pr_status := ''refunded''\<rparr> else x)
            (paymentRequests st)"
    by (auto simp: processScheduledRefunds_def newDate_def foldl_executeRefund_requests)
  then obtain S where "paymentRequests (processScheduledRefunds env st) =
          map (\<lambda>x. if pr_id x \<in> S then x\<lparr>pr_status := ''refunded''\<rparr> else x)
            (paymentRequests st)" by blast
  from inv_map[OF this _ _ inv] show ?thesis by simp
qed

lemma step_inv:
  assumes "uniqueIds st \<and> refundDateOnlyWhenPaid st"
  shows "uniqueIds (step env st c) \<and> refundDateOnlyWhenPaid (step env st c)"
proof (cases c)
  case (CreatePaymentRequest p)
  then show ?thesis using createPaymentRequest_inv[OF assms] by (simp add: step_def)
next
  case (HandlePaymentSuccess pid "proof")
  then show ?thesis using handlePaymentSuccess_inv[OF assms] by (simp add: step_def)
next
  case (CancelPaymentRequest pid)
  then show ?thesis using cancelPaymentRequest_inv[OF assms] by (simp add: step_def)
next
  case ProcessScheduledRequests
  then show ?thesis using processScheduledRequests_inv[OF assms] by (simp add: step_def)
next
  case ProcessScheduledRefunds
  then show ?thesis using processScheduledRefunds_inv[OF assms] by (simp add: step_def)
next
  case Restart
  have "paymentRequests (constructor st) = paymentRequests st"
    by (simp add: constructor_def loadActivePaymentRoutes_def Let_def)
  from inv_same[OF this assms] show ?thesis using Restart by (simp add: step_def)
qed

lemma run_inv:
  "uniqueIds st \<and> refundDateOnlyWhenPaid st \<Longrightarrow>
   uniqueIds (run env st cs) \<and> refundDateOnlyWhenPaid (run env st cs)"
  unfolding run_def
  by (induction cs arbitrary: st) (simp_all add: step_inv)

text \<open>
  Claim C4 does not hold as stated. With local time UTC, the refund date of the paid
  refundable request is thirty days after the reading of the clock that \<^verbatim>\<open>scheduleRefund\<close>
  took, two readings after the one stored as \<^verbatim>\<open>paidAt\<close>, and so differs from \<^verbatim>\<open>paidAt\<close>
  plus thirty days. And a
  request of kind \<^verbatim>\<open>ask_and_refund\<close> without recipient email is stored as
  \<^verbatim>\<open>payment_received\<close> with no refund date.
\<close>

theorem refund_date_counterexample:
  "findUniqueRequest (paid refundable) demoId = Some paidRefundable
   \<and> pr_paidAt paidRefundable = Some 1700000000003
   \<and> pr_refundDate paidRefundable = Some 1702592000005
   \<and> addDays demoEnv 1700000000003 30 = 1702592000003
   \<and> map_option pr_transactionType (findUniqueRequest (paid refundableNoEmail) demoId)
       = Some ''ask_and_refund''
   \<and> statusOf (paid refundableNoEmail) demoId = Some ''payment_received''
   \<and> map_option pr_refundDate (findUniqueRequest (paid refundableNoEmail) demoId) = Some None"
  by (simp add: model_defs demo_defs Let_def)

text \<open>
  Claim C4, amended. Whatever calls are made on a database that satisfies it, a request has
  a refund date only if its kind is \<^verbatim>\<open>ask_and_refund\<close> and it has been paid. When
  \<^verbatim>\<open>handlePaymentSuccess\<close> succeeds on a request of that kind, the refund date stored is
  the reading of the clock taken in \<^verbatim>\<open>scheduleRefund\<close>, the second reading after the one
  stored as \<^verbatim>\<open>paidAt\<close>, moved thirty calendar days ahead in local time; on a request of
  another kind it leaves the refund date as it was. Where the offset of local time does not
  change, thirty calendar days ahead is thirty times 86400000 milliseconds later.
\<close>

theorem refund_date_follows_scheduleRefund:
  "(uniqueIds st0 \<and> refundDateOnlyWhenPaid st0 \<longrightarrow> refundDateOnlyWhenPaid (run env st0 cs))
   \<and> (\<forall>r to st'. handlePaymentSuccess env st pid proof = (Inr (r, to), st') \<longrightarrow>
         pr_paidAt r = Some (clock env (reads st))
         \<and> map_option pr_paidAt (findUniqueRequest st' pid) = Some (Some (clock env (reads st)))
         \<and> (pr_transactionType r = ''ask_and_refund'' \<longrightarrow>
              map_option pr_refundDate (findUniqueRequest st' pid)
                = Some (Some (addDays env (clock env (reads st + 2)) 30)))
         \<and> (pr_transactionType r \<noteq> ''ask_and_refund'' \<longrightarrow>
              map_option pr_refundDate (findUniqueRequest st' pid)
                = map_option pr_refundDate (findUniqueRequest st pid)))
   \<and> ((\<forall>u isUTC. localTZA env u isUTC = offset) \<longrightarrow>
        addDays env t 30 = t + 30 * 86400000)"
proof -
  have fixed: "addDays env t 30 = t + 30 * 86400000"
    if "\<forall>u isUTC. localTZA env u isUTC = offset"
    using that by (simp add: addDays_def Let_def)
  have dates: "pr_paidAt r = Some (clock env (reads st))
         \<and> map_option pr_paidAt (findUniqueRequest st' pid) = Some (Some (clock env (reads st)))
         \<and> (pr_transactionType r = ''ask_and_refund'' \<longrightarrow>
              map_option pr_refundDate (findUniqueRequest st' pid)
                = Some (Some (addDays env (clock env (reads st + 2)) 30)))
         \<and> (pr_transactionType r \<noteq> ''ask_and_refund'' \<longrightarrow>
              map_option pr_refundDate (findUniqueRequest st' pid)
                = map_option pr_refundDate (findUniqueRequest st pid))"
    if ok: "handlePaymentSuccess env st pid proof = (Inr (r, to), st')" for r to st'
  proof -
    from handlePaymentSuccess_Inr[OF ok] obtain row where
      row: "findUniqueRequest st pid = Some row"
      and key: "\<And>c. paymentRoutes st pid = Some c \<Longrightarrow> rc_userId c \<noteq> []"
      and email: "pr_transactionType row = ''ask_and_refund'' \<Longrightarrow> pr_recipientEmail row \<noteq> None"
      by blast
    from handlePaymentSuccess_resolves[OF row key email, of env "proof"] ok
    have r: "r = paymentReceived proof (clock env (reads st)) row"
      and found: "findUniqueRequest st' pid =
              Some (if pr_transactionType row = ''ask_and_refund''
                    then (paymentReceived proof (clock env (reads st)) row)
                           \<lparr>pr_refundDate := Some (addDays env (clock env (Suc (Suc (reads st)))) 30)\<rparr>
                    else paymentReceived proof (clock env (reads st)) row)"
      by auto
    show ?thesis using r found row by simp
  qed
  show ?thesis using run_inv[of st0 env cs] dates fixed by blast
qed

text \<open>
  Claim C4, amended, at work: the refundable request is created, paid and refunded; its
  refund date is thirty days after the sixth reading of the clock, local time being UTC.
  The plain request, once paid, has no refund date. (Where daylight saving ends within the
  thirty days, thirty calendar days ahead is an hour more than thirty times 86400000
  milliseconds later.)
\<close>

theorem refund_date_follows_scheduleRefund_witness:
  "uniqueIds emptyState \<and> refundDateOnlyWhenPaid emptyState
   \<and> refundDateOnlyWhenPaid
        (run demoEnv emptyState
           [CreatePaymentRequest refundable, HandlePaymentSuccess demoId (Some ''proof-1''),
            ProcessScheduledRefunds])
   \<and> \<not> isl (fst (handlePaymentSuccess demoEnv (created refundable) demoId (Some ''proof-1'')))
   \<and> map_option pr_refundDate (findUniqueRequest (paid refundable) demoId)
       = Some (Some (addDays demoEnv (clock demoEnv 5) 30))
   \<and> \<not> isl (fst (handlePaymentSuccess demoEnv (created askPayment) demoId (Some ''proof-1'')))
   \<and> map_option pr_refundDate (findUniqueRequest (paid askPayment) demoId) = Some None
   \<and> addDays demoEnv (clock demoEnv 5) 30 = clock demoEnv 5 + 30 * 86400000
   \<and> addDays dstEnv (clock dstEnv 5) 30 = clock dstEnv 5 + 30 * 86400000 + 3600000"
proof -
  have utc: "\<forall>u isUTC. localTZA demoEnv u isUTC = 0" by (simp add: demoEnv_def)
  have dst: "addDays dstEnv (clock dstEnv 5) 30 = clock dstEnv 5 + 30 * 86400000 + 3600000"
    by (simp add: addDays_def dstEnv_def demoEnv_def Let_def)
  have inv: "uniqueIds emptyState \<and> refundDateOnlyWhenPaid emptyState"
    by (simp add: uniqueIds_def refundDateOnlyWhenPaid_def emptyState_def)
  obtain res st' where
    ok: "handlePaymentSuccess demoEnv (created refundable) demoId (Some ''proof-1'') = (Inr res, st')"
    using resolved[OF demo_paid_resolves(2)] by blast
  obtain r to where res: "res = (r, to)" by (cases res)
  have st': "st' = paid refundable" using ok by (simp add: paid_def)
  have kind: "pr_transactionType r = ''ask_and_refund''"
    using ok res by (auto simp: model_defs demo_defs Let_def)
  have reads: "reads (created refundable) + 2 = 5"
    by (simp add: model_defs demo_defs Let_def)
  obtain res2 st2 where
    ok2: "handlePaymentSuccess demoEnv (created askPayment) demoId (Some ''proof-1'') = (Inr res2, st2)"
    using resolved[OF demo_paid_resolves(1)] by blast
  obtain r2 to2 where res2: "res2 = (r2, to2)" by (cases res2)
  have st2: "st2 = paid askPayment" using ok2 by (simp add: paid_def)
  have kind2: "pr_transactionType r2 \<noteq> ''ask_and_refund''"
    using ok2 res2 by (auto simp: model_defs demo_defs Let_def)
  have before: "map_option pr_refundDate (findUniqueRequest (created askPayment) demoId) = Some None"
    by (simp add: model_defs demo_defs Let_def)
  have first: "refundDateOnlyWhenPaid
        (run demoEnv emptyState
           [CreatePaymentRequest refundable, HandlePaymentSuccess demoId (Some ''proof-1''),
            ProcessScheduledRefunds])
     \<and> map_option pr_refundDate (findUniqueRequest (paid refundable) demoId)
       = Some (Some (addDays demoEnv (clock demoEnv 5) 30))"
    using refund_date_follows_scheduleRefund[of emptyState demoEnv
        "[CreatePaymentRequest refundable, HandlePaymentSuccess demoId (Some ''proof-1''),
          ProcessScheduledRefunds]"
        "created refundable" demoId "Some ''proof-1''" 0 "clock demoEnv 5"]
      inv ok res kind st' reads
    by simp
  have second: "map_option pr_refundDate (findUniqueRequest (paid askPayment) demoId) = Some None"
    using refund_date_follows_scheduleRefund[of emptyState demoEnv "[]"
        "created askPayment" demoId "Some ''proof-1''" 0 "clock demoEnv 5"]
      ok2 res2 kind2 st2 before
    by simp
  have third: "addDays demoEnv (clock demoEnv 5) 30 = clock demoEnv 5 + 30 * 86400000"
    using refund_date_follows_scheduleRefund[of emptyState demoEnv "[]"
        "created askPayment" demoId "Some ''proof-1''" 0 "clock demoEnv 5"] utc
    by blast
  show ?thesis using inv first second third dst ok ok2 by simp
qed

subsection \<open>Rebuilding the route registry from storage\<close>
















end
